theory Spec2Isabelle
  imports Complex_Main "HOL-Library.Word" "HOL-Library.Sublist"
begin

section \<open>Strings, tokens and notifications\<close>

text \<open>
  A JavaScript string is a sequence of UTF-16 code units; \<open>length\<close>, \<open>slice\<close> and
  \<open>trim\<close> of the source count and inspect code units, so the model keeps them.
  \<open>ascii\<close> embeds an ASCII literal; the emoji of the source's message templates are
  written out as their code units.
\<close>

type_synonym code_unit = "16 word"
type_synonym jsstring = "code_unit list"

definition ascii :: "string \<Rightarrow> jsstring" where
  "ascii s = map (\<lambda>c. of_nat (of_char c)) s"

definition emoji_palette :: jsstring where "emoji_palette = [0xD83C, 0xDFA8]"
definition emoji_zap :: jsstring where "emoji_zap = [0x26A1]"
definition emoji_cycle :: jsstring where "emoji_cycle = [0xD83D, 0xDD04]"
definition emoji_hourglass :: jsstring where "emoji_hourglass = [0x23F3]"
definition emoji_target :: jsstring where "emoji_target = [0xD83C, 0xDFAF]"
definition emoji_memo :: jsstring where "emoji_memo = [0xD83D, 0xDCDD]"
definition emoji_check :: jsstring where "emoji_check = [0x2705]"
definition emoji_cross :: jsstring where "emoji_cross = [0x274C]"

text \<open>\<open>String.prototype.trim\<close>: white space and line terminators of ECMAScript.\<close>

definition is_js_whitespace :: "code_unit \<Rightarrow> bool" where
  "is_js_whitespace c \<longleftrightarrow>
     c \<in> set [0x9, 0xA, 0xB, 0xC, 0xD, 0x20, 0xA0, 0x1680, 0x2028, 0x2029, 0x202F, 0x205F,
              0x3000, 0xFEFF]
     \<or> (0x2000 \<le> c \<and> c \<le> 0x200A)"

definition trim :: "jsstring \<Rightarrow> jsstring" where
  "trim s = rev (dropWhile is_js_whitespace (rev (dropWhile is_js_whitespace s)))"

text \<open>\<open>s.slice(-n)\<close>: the last \<open>n\<close> code units, the whole string when it is shorter.\<close>

definition slice_last :: "nat \<Rightarrow> jsstring \<Rightarrow> jsstring" where
  "slice_last n s = drop (length s - n) s"

text \<open>
  JSON values as the request carries them. A JSON number is a finite double, hence a
  rational.
\<close>

datatype jv = JNull | JBool bool | JNum rat | JStr jsstring
  | JArr "jv list" | JObj "(jsstring \<times> jv) list"

type_synonym args = "(jsstring \<times> jv) list"

text \<open>The progress token is \<open>string | number | undefined\<close>; \<open>undefined\<close> is \<open>None\<close>.\<close>

datatype token = TStr jsstring | TNum int

text \<open>The source tests the token by truthiness: \<open>if (!progressToken)\<close>, \<open>if (progressToken)\<close>.\<close>

fun truthy :: "token option \<Rightarrow> bool" where
  "truthy None = False"
| "truthy (Some (TStr s)) = (s \<noteq> [])"
| "truthy (Some (TNum n)) = (n \<noteq> 0)"

datatype params =
    ProgressParams (p_token: token) (p_progress: nat) (p_total: "nat option")
      (p_message: "jsstring option")
  | OtherParams jv

record notification =
  note_method :: jsstring
  note_params :: params

definition PROTOCOL_KEEPALIVE_INTERVAL :: nat where
  "PROTOCOL_KEEPALIVE_INTERVAL = 25000"

definition PROTOCOL_NOTIFICATIONS_PROGRESS :: jsstring where
  "PROTOCOL_NOTIFICATIONS_PROGRESS = ascii ''notifications/progress''"

text \<open>
  What a \<open>throw\<close> can carry. \<open>GeminiAPIError\<close> has a message and the optional
  \<open>code\<close> and \<open>statusCode\<close> (its \<open>details\<close> is never read); \<open>Error\<close> is any other
  instance of \<open>Error\<close>; \<open>NonError\<close> is any other thrown value.
\<close>

datatype thrown =
    GeminiAPIError (err_message: jsstring) (err_code: "jsstring option")
      (err_statusCode: "int option")
  | Error jsstring
  | NonError jv

text \<open>
  The transport is the environment: \<open>net k\<close> tells whether the \<open>k\<close>-th call of
  \<open>server.notification\<close> resolves (\<open>None\<close>) or throws (\<open>Some\<close> of what it throws). The
  log keeps every call with that outcome.
\<close>

type_synonym transport = "nat \<Rightarrow> thrown option"
type_synonym log = "(notification \<times> thrown option) list"

definition server_notification ::
  "transport \<Rightarrow> notification \<Rightarrow> log \<Rightarrow> (thrown + unit) \<times> log" where
  "server_notification net n out =
     ((case net (length out) of None \<Rightarrow> Inr () | Some e \<Rightarrow> Inl e),
      out @ [(n, net (length out))])"

text \<open>
  \<open>sendNotification\<close> and \<open>sendProgressNotification\<close> wrap the call in \<open>try/catch\<close>; the
  \<open>catch\<close> hands the error to \<open>Logger.error\<close> and returns.
\<close>

definition sendNotification :: "transport \<Rightarrow> jsstring \<Rightarrow> params \<Rightarrow> log \<Rightarrow> log" where
  "sendNotification net m ps out =
     (case server_notification net \<lparr>note_method = m, note_params = ps\<rparr> out of
        (Inr u, out') \<Rightarrow> out'
      | (Inl error, out') \<Rightarrow> out')"

definition sendProgressNotification ::
  "transport \<Rightarrow> token option \<Rightarrow> nat \<Rightarrow> nat option \<Rightarrow> jsstring option \<Rightarrow> log \<Rightarrow> log" where
  "sendProgressNotification net progressToken prog tot msg out =
     (case progressToken of
        None \<Rightarrow> out
      | Some t \<Rightarrow>
          if \<not> truthy (Some t) then out
          else (case server_notification net
                       \<lparr>note_method = PROTOCOL_NOTIFICATIONS_PROGRESS,
                        note_params = ProgressParams t prog tot
                          (case msg of None \<Rightarrow> None
                           | Some m \<Rightarrow> if m \<noteq> [] then Some m else None)\<rparr>
                       out of
                  (Inr u, out') \<Rightarrow> out'
                | (Inl error, out') \<Rightarrow> out'))"

section \<open>The progress channel of index.ts\<close>

text \<open>The module-level variables of index.ts.\<close>

record globals =
  isProcessing :: bool
  currentOperationName :: jsstring
  latestOutput :: jsstring

definition initial_globals :: globals where
  "initial_globals = \<lparr>isProcessing = False, currentOperationName = [], latestOutput = []\<rparr>"

text \<open>
  What one call of \<open>startProgressUpdates\<close> owns: the captured operation name and token,
  the closure variables \<open>messageIndex\<close> and \<open>progress\<close>, its interval timer
  (\<open>cleared\<close> once \<open>clearInterval\<close> was called on it), and \<open>pending\<close>, the number of
  runs of the interval callback that are suspended at \<open>await sendProgressNotification\<close>.
\<close>

record channel =
  operationName :: jsstring
  progressToken :: "token option"
  messageIndex :: nat
  progress :: nat
  pending :: nat
  cleared :: bool

definition progressMessages :: "jsstring \<Rightarrow> jsstring list" where
  "progressMessages opName =
     [emoji_palette @ ascii '' '' @ opName @ ascii '' - Preparing your creative request...'',
      emoji_zap @ ascii '' '' @ opName @ ascii '' - Connecting to Gemini AI models...'',
      emoji_cycle @ ascii '' '' @ opName
        @ ascii '' - Generating content (this may take a moment)...'',
      emoji_hourglass @ ascii '' '' @ opName
        @ ascii '' - Still processing... Quality results take time...'',
      emoji_target @ ascii '' '' @ opName @ ascii '' - Finalizing your media output...'']"

definition startProgressUpdates ::
  "transport \<Rightarrow> jsstring \<Rightarrow> token option \<Rightarrow> globals \<times> log \<Rightarrow> globals \<times> channel \<times> log" where
  "startProgressUpdates net opName tok = (\<lambda>(g, out).
     (\<lparr>isProcessing = True, currentOperationName = opName, latestOutput = []\<rparr>,
      \<lparr>operationName = opName, progressToken = tok, messageIndex = 0, progress = 0,
       pending = 0, cleared = False\<rparr>,
      if truthy tok
      then sendProgressNotification net tok 0 None
             (Some (emoji_palette @ ascii '' Starting '' @ opName)) out
      else out))"

text \<open>
  The interval callback runs in two parts. Up to the \<open>await\<close> it increments \<open>progress\<close>,
  builds the message from the present \<open>messageIndex\<close> and \<open>latestOutput\<close> and hands the
  notification to the transport; then it is suspended (\<open>progressInterval\<close>). When the send
  has settled, resolved or caught, the callback resumes and does \<open>messageIndex++\<close>
  (\<open>progressInterval_resumes\<close>). When the send settles is up to the transport: it is an
  event of its own.
\<close>

definition statusMessage :: "jsstring \<Rightarrow> jsstring \<Rightarrow> jsstring" where
  "statusMessage baseMessage latest =
     (let outputPreview = trim (slice_last 100 latest)
      in if outputPreview \<noteq> []
         then baseMessage @ [0xA] @ emoji_memo @ ascii '' Status: ...'' @ outputPreview
         else baseMessage)"

definition progressInterval :: "transport \<Rightarrow> globals \<Rightarrow> channel \<times> log \<Rightarrow> channel \<times> log" where
  "progressInterval net g = (\<lambda>(ch, out).
     if isProcessing g \<and> truthy (progressToken ch) then
       (let prog = progress ch + 1;
            baseMessage = progressMessages (operationName ch)
                            ! (messageIndex ch mod length (progressMessages (operationName ch)));
            msg = statusMessage baseMessage (latestOutput g)
        in (ch\<lparr>progress := prog, pending := pending ch + 1\<rparr>,
            sendProgressNotification net (progressToken ch) prog None (Some msg) out))
     else if \<not> isProcessing g then (ch\<lparr>cleared := True\<rparr>, out)
     else (ch, out))"

definition progressInterval_resumes :: "channel \<Rightarrow> channel" where
  "progressInterval_resumes ch =
     (if 0 < pending ch
      then ch\<lparr>messageIndex := messageIndex ch + 1, pending := pending ch - 1\<rparr>
      else ch)"

text \<open>The runtime calls the callback of a timer only while the timer is not cleared.\<close>

definition timer_fires :: "transport \<Rightarrow> globals \<Rightarrow> channel \<times> log \<Rightarrow> channel \<times> log" where
  "timer_fires net g = (\<lambda>(ch, out).
     if cleared ch then (ch, out) else progressInterval net g (ch, out))"

definition stopProgressUpdates ::
  "transport \<Rightarrow> channel \<Rightarrow> bool \<Rightarrow> globals \<times> log \<Rightarrow> globals \<times> channel \<times> log" where
  "stopProgressUpdates net progressData success = (\<lambda>(g, out).
     (let opName = currentOperationName g
      in (g\<lparr>isProcessing := False, currentOperationName := []\<rparr>,
          progressData\<lparr>cleared := True\<rparr>,
          if truthy (progressToken progressData)
          then sendProgressNotification net (progressToken progressData) 100 (Some 100)
                 (Some (if success
                        then emoji_check @ ascii '' '' @ opName @ ascii '' completed successfully!''
                        else emoji_cross @ ascii '' '' @ opName @ ascii '' failed''))
                 out
          else out)))"

section \<open>The tool-call handler of index.ts\<close>

text \<open>
  What happens while the handler awaits \<open>executeTool\<close>: the keep-alive interval elapses
  (the timer fires), the send of a tick settles (the suspended callback resumes), or the
  tool calls \<open>onProgress\<close>; in the end the promise resolves with a text (\<open>Inr\<close>) or rejects
  with a thrown value (\<open>Inl\<close>).
\<close>

datatype ev = IntervalElapsed | SendSettled | OnProgress jsstring

type_synonym execution = "ev list \<times> (thrown + jsstring)"

text \<open>
  \<open>toolExists\<close> and \<open>executeTool\<close> are imported from tools/registry.js; the handler is
  defined over any pair of them.
\<close>

record registry_js =
  toolExists :: "jsstring \<Rightarrow> bool"
  executeTool :: "jsstring \<Rightarrow> args \<Rightarrow> execution"

record CallToolRequest =
  params_name :: jsstring
  params_arguments :: "args option"
  params_meta_progressToken :: "token option"

record CallToolResult =
  content_text :: jsstring
  isError :: bool

text \<open>The \<open>onProgress\<close> callback of the handler: \<open>latestOutput = newOutput\<close>.\<close>

fun awaiting :: "transport \<Rightarrow> ev list \<Rightarrow> globals \<times> channel \<times> log \<Rightarrow> globals \<times> channel \<times> log" where
  "awaiting net [] s = s"
| "awaiting net (IntervalElapsed # evs) (g, ch, out) =
     (case timer_fires net g (ch, out) of (ch', out') \<Rightarrow> awaiting net evs (g, ch', out'))"
| "awaiting net (SendSettled # evs) (g, ch, out) =
     awaiting net evs (g, progressInterval_resumes ch, out)"
| "awaiting net (OnProgress newOutput # evs) (g, ch, out) =
     awaiting net evs (g\<lparr>latestOutput := newOutput\<rparr>, ch, out)"

fun errorMessage :: "thrown \<Rightarrow> jsstring" where
  "errorMessage (GeminiAPIError m c s) =
     m @ ascii '' ('' @ (case c of Some c' \<Rightarrow> c' | None \<Rightarrow> ascii ''undefined'') @ ascii '')''"
| "errorMessage (Error m) = m"
| "errorMessage (NonError v) = ascii ''Unknown error occurred''"

text \<open>
  The handler returns \<open>Inr\<close> of its result or \<open>Inl\<close> of what it throws, with the globals,
  the channel it started (if any) and the log. Logging has no effect on them.
\<close>

definition CallToolRequest_handler ::
  "transport \<Rightarrow> registry_js \<Rightarrow> globals \<times> log \<Rightarrow> CallToolRequest
     \<Rightarrow> (thrown + CallToolResult) \<times> globals \<times> channel option \<times> log" where
  "CallToolRequest_handler net R = (\<lambda>(g, out) request.
     (let toolName = params_name request in
      if toolExists R toolName then
        (let tok = params_meta_progressToken request in
         case startProgressUpdates net toolName tok (g, out) of (g1, progressData, out1) \<Rightarrow>
           (let a = (case params_arguments request of Some a' \<Rightarrow> a' | None \<Rightarrow> [])
            in case executeTool R toolName a of (evs, outcome) \<Rightarrow>
                 (case awaiting net evs (g1, progressData, out1) of (g2, ch2, out2) \<Rightarrow>
                    (case outcome of
                       Inr result \<Rightarrow>
                         (case stopProgressUpdates net ch2 True (g2, out2) of (g3, ch3, out3) \<Rightarrow>
                            (Inr \<lparr>content_text = result, isError = False\<rparr>, g3, Some ch3, out3))
                     | Inl err \<Rightarrow>
                         (case stopProgressUpdates net ch2 False (g2, out2) of (g3, ch3, out3) \<Rightarrow>
                            (Inr \<lparr>content_text = emoji_cross @ ascii '' Error executing ''
                                     @ toolName @ ascii '': '' @ errorMessage err,
                                   isError = True\<rparr>,
                             g3, Some ch3, out3))))))
      else (Inl (Error (ascii ''Unknown tool: '' @ params_name request)), g, None, out)))"

text \<open>The notifications handed to the transport, in order.\<close>

definition emitted :: "log \<Rightarrow> notification list" where
  "emitted out = map fst out"

section \<open>The demo server of test-runner.js\<close>

text \<open>
  A schema property of a demo tool: the code reads only its \<open>default\<close>, by truthiness.
\<close>

fun jv_truthy :: "jv \<Rightarrow> bool" where
  "jv_truthy JNull = False"
| "jv_truthy (JBool b) = b"
| "jv_truthy (JNum r) = (r \<noteq> 0)"
| "jv_truthy (JStr s) = (s \<noteq> [])"
| "jv_truthy (JArr xs) = True"
| "jv_truthy (JObj kvs) = True"

record demo_tool =
  name :: jsstring
  description :: jsstring
  category :: jsstring
  schema :: "(jsstring \<times> jv option) list"
  execute :: "jv \<Rightarrow> thrown + jsstring"

type_synonym toolRegistry = "demo_tool list"

definition registerTool :: "demo_tool \<Rightarrow> toolRegistry \<Rightarrow> toolRegistry" where
  "registerTool tool reg = reg @ [tool]"

record demo_params =
  call_name :: jsstring
  call_arguments :: "jv option"

record demo_request =
  rq_method :: jsstring
  rq_params :: "demo_params option"

record tool_listing =
  l_name :: jsstring
  l_description :: jsstring
  l_properties :: "(jsstring \<times> jv option) list"
  l_required :: "jsstring list"

datatype demo_response =
    ToolsList "tool_listing list"
  | ErrorObject jsstring
  | ToolResult CallToolResult

definition list_tool :: "demo_tool \<Rightarrow> tool_listing" where
  "list_tool tool =
     \<lparr>l_name = name tool, l_description = description tool, l_properties = schema tool,
      l_required = map fst (filter (\<lambda>(key, dflt). \<not> (case dflt of None \<Rightarrow> False
                                                       | Some d \<Rightarrow> jv_truthy d))
                              (schema tool))\<rparr>"

text \<open>
  \<open>handleRequest\<close>: \<open>Inl\<close> is the \<open>TypeError\<close> of reading \<open>params.name\<close> when the request
  has no \<open>params\<close>.
\<close>

definition handleRequest :: "toolRegistry \<Rightarrow> demo_request \<Rightarrow> thrown + demo_response" where
  "handleRequest tools request =
     (if rq_method request = ascii ''tools/list'' then Inr (ToolsList (map list_tool tools))
      else if rq_method request = ascii ''tools/call'' then
        (case rq_params request of
           None \<Rightarrow> Inl (Error (ascii ''Cannot read properties of undefined''))
         | Some ps \<Rightarrow>
             (case find (\<lambda>t. name t = call_name ps) tools of
                None \<Rightarrow> Inr (ErrorObject (ascii ''Unknown tool: '' @ call_name ps))
              | Some tool \<Rightarrow>
                  (case execute tool (case call_arguments ps of
                                        None \<Rightarrow> JObj []
                                      | Some a \<Rightarrow> if jv_truthy a then a else JObj []) of
                     Inr result \<Rightarrow>
                       Inr (ToolResult \<lparr>content_text = result, isError = False\<rparr>)
                   | Inl err \<Rightarrow>
                       Inr (ToolResult
                              \<lparr>content_text = ascii ''Error: '' @
                                 (case err of
                                    GeminiAPIError m c s \<Rightarrow> m
                                  | Error m \<Rightarrow> m
                                  | NonError v \<Rightarrow> ascii ''Unknown error''),
                               isError = True\<rparr>))))
      else Inr (ErrorObject (ascii ''Unknown method: '' @ rq_method request)))"

section \<open>What one invocation emits\<close>

text \<open>
  The arguments the handler passes on (\<open>request.params.arguments || {}\<close>) and the result it
  builds once \<open>executeTool\<close> has settled.
\<close>

definition call_args :: "CallToolRequest \<Rightarrow> args" where
  "call_args request = (case params_arguments request of Some a \<Rightarrow> a | None \<Rightarrow> [])"

definition settled_result :: "jsstring \<Rightarrow> thrown + jsstring \<Rightarrow> CallToolResult" where
  "settled_result toolName outcome =
     (case outcome of
        Inr result \<Rightarrow> \<lparr>content_text = result, isError = False\<rparr>
      | Inl err \<Rightarrow> \<lparr>content_text = emoji_cross @ ascii '' Error executing '' @ toolName
                       @ ascii '': '' @ errorMessage err,
                     isError = True\<rparr>)"

text \<open>The three shapes of progress notification.\<close>

definition start_note :: "jsstring \<Rightarrow> token \<Rightarrow> notification" where
  "start_note opName t =
     \<lparr>note_method = PROTOCOL_NOTIFICATIONS_PROGRESS,
      note_params = ProgressParams t 0 None
        (Some (emoji_palette @ ascii '' Starting '' @ opName))\<rparr>"

definition tick_note :: "jsstring \<Rightarrow> token \<Rightarrow> nat \<Rightarrow> nat \<Rightarrow> jsstring \<Rightarrow> notification" where
  "tick_note opName t k m latest =
     \<lparr>note_method = PROTOCOL_NOTIFICATIONS_PROGRESS,
      note_params = ProgressParams t (Suc k) None
        (Some (statusMessage (progressMessages opName ! (m mod 5)) latest))\<rparr>"

definition final_note :: "jsstring \<Rightarrow> token \<Rightarrow> bool \<Rightarrow> notification" where
  "final_note opName t success =
     \<lparr>note_method = PROTOCOL_NOTIFICATIONS_PROGRESS,
      note_params = ProgressParams t 100 (Some 100)
        (Some (if success
               then emoji_check @ ascii '' '' @ opName @ ascii '' completed successfully!''
               else emoji_cross @ ascii '' '' @ opName @ ascii '' failed''))\<rparr>"

text \<open>
  Reading a trace: how many intervals elapsed, the status in force at each of them
  (\<open>cur\<close> before any \<open>onProgress\<close>), the status left at the end, and the \<open>messageIndex\<close>
  and number of suspended callbacks left at the end (from \<open>m\<close> and \<open>p\<close>).
\<close>

definition intervals :: "ev list \<Rightarrow> nat" where
  "intervals evs = length (filter (\<lambda>e. e = IntervalElapsed) evs)"

fun statuses_at_ticks :: "jsstring \<Rightarrow> ev list \<Rightarrow> jsstring list" where
  "statuses_at_ticks cur [] = []"
| "statuses_at_ticks cur (IntervalElapsed # evs) = cur # statuses_at_ticks cur evs"
| "statuses_at_ticks cur (SendSettled # evs) = statuses_at_ticks cur evs"
| "statuses_at_ticks cur (OnProgress s # evs) = statuses_at_ticks s evs"

fun last_status :: "jsstring \<Rightarrow> ev list \<Rightarrow> jsstring" where
  "last_status cur [] = cur"
| "last_status cur (IntervalElapsed # evs) = last_status cur evs"
| "last_status cur (SendSettled # evs) = last_status cur evs"
| "last_status cur (OnProgress s # evs) = last_status s evs"

fun settles :: "nat \<Rightarrow> nat \<Rightarrow> ev list \<Rightarrow> nat \<times> nat" where
  "settles m p [] = (m, p)"
| "settles m p (IntervalElapsed # evs) = settles m (Suc p) evs"
| "settles m p (SendSettled # evs) =
     (if 0 < p then settles (Suc m) (p - 1) evs else settles m p evs)"
| "settles m p (OnProgress s # evs) = settles m p evs"

text \<open>
  The ticks of a trace, from progress \<open>k\<close>, message index \<open>m\<close>, \<open>p\<close> suspended callbacks
  and status \<open>cur\<close>.
\<close>

fun ticks_of ::
  "jsstring \<Rightarrow> token \<Rightarrow> nat \<Rightarrow> nat \<Rightarrow> nat \<Rightarrow> jsstring \<Rightarrow> ev list \<Rightarrow> notification list" where
  "ticks_of opName t k m p cur [] = []"
| "ticks_of opName t k m p cur (IntervalElapsed # evs) =
     tick_note opName t k m cur # ticks_of opName t (Suc k) m (Suc p) cur evs"
| "ticks_of opName t k m p cur (SendSettled # evs) =
     (if 0 < p then ticks_of opName t k (Suc m) (p - 1) cur evs
      else ticks_of opName t k m p cur evs)"
| "ticks_of opName t k m p cur (OnProgress s # evs) = ticks_of opName t k m p s evs"

text \<open>
  A trace in which the send of every tick settles before the next interval elapses
  (\<open>waiting\<close>: a send is outstanding).
\<close>

fun prompt :: "bool \<Rightarrow> ev list \<Rightarrow> bool" where
  "prompt waiting [] = True"
| "prompt waiting (IntervalElapsed # evs) = (\<not> waiting \<and> prompt True evs)"
| "prompt waiting (SendSettled # evs) = (waiting \<and> prompt False evs)"
| "prompt waiting (OnProgress s # evs) = prompt waiting evs"

definition send_all :: "transport \<Rightarrow> log \<Rightarrow> notification list \<Rightarrow> log" where
  "send_all net out ns = foldl (\<lambda>acc n. snd (server_notification net n acc)) out ns"

section \<open>Argument schemas and the registry of index.ts\<close>

text \<open>
  The checks of the zod schemas of constants.ts. An issue has the path of the field, the
  code of the violated check and the message given in the schema, if one is given.
\<close>

datatype zod_code = invalid_type | too_small | too_big | invalid_enum_value

datatype zod_issue =
  Issue (issue_path: jsstring) (issue_code: zod_code) (issue_message: "jsstring option")

type_synonym field_result = "zod_issue list \<times> args"

text \<open>\<open>z.string().min(lo, lo_msg).max(hi, hi_msg)\<close>: a required string.\<close>

definition z_string_min_max ::
  "jsstring \<Rightarrow> nat \<Rightarrow> jsstring \<Rightarrow> nat \<Rightarrow> jsstring \<Rightarrow> jv option \<Rightarrow> field_result" where
  "z_string_min_max key lo lo_msg hi hi_msg v =
     (case v of
        Some (JStr s) \<Rightarrow>
          ((if length s < lo then [Issue key too_small (Some lo_msg)] else [])
           @ (if hi < length s then [Issue key too_big (Some hi_msg)] else []),
           [(key, JStr s)])
      | _ \<Rightarrow> ([Issue key invalid_type None], []))"

text \<open>\<open>z.enum(values).default(d)\<close>: the default stands in for \<open>undefined\<close> only.\<close>

definition z_enum_default :: "jsstring \<Rightarrow> jsstring list \<Rightarrow> jsstring \<Rightarrow> jv option \<Rightarrow> field_result" where
  "z_enum_default key values d v =
     (case v of
        None \<Rightarrow> ([], [(key, JStr d)])
      | Some (JStr s) \<Rightarrow>
          if s \<in> set values then ([], [(key, JStr s)])
          else ([Issue key invalid_enum_value None], [])
      | Some _ \<Rightarrow> ([Issue key invalid_type None], []))"

text \<open>\<open>z.number().int().min(lo).max(hi).optional()\<close>.\<close>

definition z_int_min_max_optional :: "jsstring \<Rightarrow> rat \<Rightarrow> rat \<Rightarrow> jv option \<Rightarrow> field_result" where
  "z_int_min_max_optional key lo hi v =
     (case v of
        None \<Rightarrow> ([], [])
      | Some (JNum r) \<Rightarrow>
          ((if of_int (floor r) = r then [] else [Issue key invalid_type None])
           @ (if r < lo then [Issue key too_small None] else [])
           @ (if hi < r then [Issue key too_big None] else []),
           [(key, JNum r)])
      | Some _ \<Rightarrow> ([Issue key invalid_type None], []))"

text \<open>\<open>z.object\<close>: every field is checked; the parse succeeds when no field has an issue.\<close>

definition z_object :: "field_result list \<Rightarrow> zod_issue list + args" where
  "z_object fs =
     (if concat (map fst fs) = [] then Inr (concat (map snd fs))
      else Inl (concat (map fst fs)))"

definition ImageGenerationSchema :: "args \<Rightarrow> zod_issue list + args" where
  "ImageGenerationSchema a = z_object
     [z_string_min_max (ascii ''prompt'') 1 (ascii ''Prompt is required'')
        2000 (ascii ''Prompt too long'') (map_of a (ascii ''prompt'')),
      z_enum_default (ascii ''model'')
        [ascii ''nano-banana'', ascii ''imagen3'', ascii ''imagen4'']
        (ascii ''nano-banana'') (map_of a (ascii ''model'')),
      z_enum_default (ascii ''aspectRatio'')
        [ascii ''1:1'', ascii ''16:9'', ascii ''4:3'', ascii ''3:2'', ascii ''2:3'',
         ascii ''3:4'', ascii ''9:16'', ascii ''21:9'']
        (ascii ''1:1'') (map_of a (ascii ''aspectRatio'')),
      z_enum_default (ascii ''quality'') [ascii ''standard'', ascii ''high'']
        (ascii ''standard'') (map_of a (ascii ''quality'')),
      z_enum_default (ascii ''style'')
        [ascii ''natural'', ascii ''artistic'', ascii ''photorealistic'', ascii ''cartoon'',
         ascii ''anime'']
        (ascii ''natural'') (map_of a (ascii ''style'')),
      z_int_min_max_optional (ascii ''seed'') 0 4294967295 (map_of a (ascii ''seed''))]"

text \<open>
  A tool of the server: its name, its schema and its \<open>execute\<close> (with the client it was
  given); the description, category and prompt metadata are display only. The fields
  \<open>name\<close> and \<open>execute\<close> are written \<open>tool_name\<close> and \<open>tool_execute\<close> here, the
  plain names being those of the demo tools of test-runner.js.
\<close>

record UnifiedTool =
  tool_name :: jsstring
  zodSchema :: "args \<Rightarrow> zod_issue list + args"
  tool_execute :: "args \<Rightarrow> execution"

text \<open>
  Modelled from the spec: tools/registry.ts, which defines \<open>toolExists\<close> and
  \<open>executeTool\<close>, is not among the sources. The specification has the registry as a
  mapping from operation name to definition, \<open>exists\<close> as the membership test, and the
  execution as: run the argument schema against the raw arguments; on failure fault with a
  message enumerating the violated constraints; otherwise invoke \<open>execute\<close> with the
  validated arguments. The first component of the result lists the arguments \<open>execute\<close> was
  invoked with; \<open>render\<close> is the text made of the issues.
\<close>

definition toolExists_spec :: "(jsstring \<rightharpoonup> UnifiedTool) \<Rightarrow> jsstring \<Rightarrow> bool" where
  "toolExists_spec reg n = (reg n \<noteq> None)"

text \<open>
  Modelled from the spec: \<open>executeTool\<close> of tools/registry.ts (not among the sources),
  the Validating and Executing steps of the dispatcher.
\<close>

definition executeTool_spec ::
  "(zod_issue list \<Rightarrow> jsstring) \<Rightarrow> (jsstring \<rightharpoonup> UnifiedTool) \<Rightarrow> jsstring \<Rightarrow> args
     \<Rightarrow> args list \<times> execution" where
  "executeTool_spec render reg n a =
     (case reg n of
        None \<Rightarrow> ([], [], Inl (Error (ascii ''Unknown tool: '' @ n)))
      | Some tool \<Rightarrow>
          (case zodSchema tool a of
             Inl issues \<Rightarrow> ([], [], Inl (Error (render issues)))
           | Inr validated \<Rightarrow> ([validated], tool_execute tool validated)))"

text \<open>
  Modelled from the spec: the two functions index.ts imports from tools/registry.ts (not
  among the sources), over a registry given as a mapping.
\<close>

definition registry_of ::
  "(zod_issue list \<Rightarrow> jsstring) \<Rightarrow> (jsstring \<rightharpoonup> UnifiedTool) \<Rightarrow> registry_js" where
  "registry_of render reg =
     \<lparr>toolExists = toolExists_spec reg,
      executeTool = (\<lambda>n a. snd (executeTool_spec render reg n a))\<rparr>"

section \<open>Several invocations in flight\<close>

text \<open>
  The event loop runs one callback at a time. With several calls in flight the events of
  their channels interleave: a handler starts its channel, a timer fires, the send of a
  tick settles, a tool calls \<open>onProgress\<close>, a handler stops its channel. Each invocation has its own channel record;
  the module variables and the transport are shared.
\<close>

datatype wev =
    Start nat jsstring "token option"
  | Fire nat
  | Settled nat
  | Progress nat jsstring
  | Stop nat bool

fun wev_invocation :: "wev \<Rightarrow> nat" where
  "wev_invocation (Start i n tok) = i"
| "wev_invocation (Fire i) = i"
| "wev_invocation (Settled i) = i"
| "wev_invocation (Progress i s) = i"
| "wev_invocation (Stop i success) = i"

record world =
  shared :: globals
  channels :: "nat \<rightharpoonup> channel"
  wire :: log

fun step :: "transport \<Rightarrow> world \<Rightarrow> wev \<Rightarrow> world" where
  "step net w (Start i n tok) =
     (case startProgressUpdates net n tok (shared w, wire w) of
        (g, ch, out) \<Rightarrow> \<lparr>shared = g, channels = (channels w)(i \<mapsto> ch), wire = out\<rparr>)"
| "step net w (Fire i) =
     (case channels w i of
        None \<Rightarrow> w
      | Some ch \<Rightarrow>
          (case timer_fires net (shared w) (ch, wire w) of
             (ch', out) \<Rightarrow> w\<lparr>channels := (channels w)(i \<mapsto> ch'), wire := out\<rparr>))"
| "step net w (Settled i) =
     (case channels w i of
        None \<Rightarrow> w
      | Some ch \<Rightarrow> w\<lparr>channels := (channels w)(i \<mapsto> progressInterval_resumes ch)\<rparr>)"
| "step net w (Progress i s) = w\<lparr>shared := (shared w)\<lparr>latestOutput := s\<rparr>\<rparr>"
| "step net w (Stop i success) =
     (case channels w i of
        None \<Rightarrow> w
      | Some ch \<Rightarrow>
          (case stopProgressUpdates net ch success (shared w, wire w) of
             (g, ch', out) \<Rightarrow> \<lparr>shared = g, channels = (channels w)(i \<mapsto> ch'), wire = out\<rparr>))"

text \<open>A stretch of events in which no invocation starts.\<close>

fun no_start :: "wev list \<Rightarrow> bool" where
  "no_start [] = True"
| "no_start (Start i n tok # evs) = False"
| "no_start (e # evs) = no_start evs"

definition run :: "transport \<Rightarrow> world \<Rightarrow> wev list \<Rightarrow> world" where
  "run net w evs = foldl (step net) w evs"

definition initial_world :: world where
  "initial_world = \<lparr>shared = initial_globals, channels = Map.empty, wire = []\<rparr>"

text \<open>The tokens of the notifications on the wire, in order.\<close>

definition wire_tokens :: "world \<Rightarrow> token list" where
  "wire_tokens w = map (\<lambda>n. p_token (note_params n)) (emitted (wire w))"

section \<open>Example inputs\<close>

definition reliable :: transport where
  "reliable k = None"

definition broken :: transport where
  "broken k = Some (Error (ascii ''write EPIPE''))"

definition no_tools :: registry_js where
  "no_tools = \<lparr>toolExists = (\<lambda>n. False), executeTool = (\<lambda>n a. ([], Inr []))\<rparr>"

definition missing_tool_request :: CallToolRequest where
  "missing_tool_request =
     \<lparr>params_name = ascii ''missing_tool'', params_arguments = Some [],
      params_meta_progressToken = Some (TStr (ascii ''tok-1''))\<rparr>"

definition missing_tool_demo_request :: demo_request where
  "missing_tool_demo_request =
     \<lparr>rq_method = ascii ''tools/call'',
      rq_params = Some \<lparr>call_name = ascii ''missing_tool'', call_arguments = None\<rparr>\<rparr>"

definition single_tool :: "jsstring \<Rightarrow> execution \<Rightarrow> registry_js" where
  "single_tool n ex = \<lparr>toolExists = (\<lambda>x. x = n), executeTool = (\<lambda>x a. ex)\<rparr>"

definition echo_request :: "token option \<Rightarrow> CallToolRequest" where
  "echo_request tok =
     \<lparr>params_name = ascii ''echo'',
      params_arguments = Some [(ascii ''prompt'', JStr (ascii ''hi''))],
      params_meta_progressToken = tok\<rparr>"

definition boom_tool :: registry_js where
  "boom_tool = single_tool (ascii ''echo'') ([], Inl (Error (ascii ''boom'')))"

definition slow_tool :: registry_js where
  "slow_tool = single_tool (ascii ''echo'')
     ([IntervalElapsed, SendSettled, OnProgress (ascii ''ok ''), IntervalElapsed, SendSettled],
      Inr (ascii ''hi''))"

definition lagging_tool :: registry_js where
  "lagging_tool = single_tool (ascii ''echo'') ([IntervalElapsed, IntervalElapsed], Inr (ascii ''hi''))"

definition stale_globals :: globals where
  "stale_globals =
     \<lparr>isProcessing = False, currentOperationName = [], latestOutput = ascii ''old status''\<rparr>"

definition tool_one :: demo_tool where
  "tool_one = \<lparr>name = ascii ''echo'', description = ascii ''first'',
     category = ascii ''text-processing'', schema = [],
     execute = (\<lambda>a. Inr (ascii ''one''))\<rparr>"

definition tool_two :: demo_tool where
  "tool_two = \<lparr>name = ascii ''echo'', description = ascii ''second'',
     category = ascii ''text-processing'', schema = [],
     execute = (\<lambda>a. Inr (ascii ''two''))\<rparr>"

definition call_echo :: demo_request where
  "call_echo = \<lparr>rq_method = ascii ''tools/call'',
     rq_params = Some \<lparr>call_name = ascii ''echo'', call_arguments = None\<rparr>\<rparr>"

definition list_request :: demo_request where
  "list_request = \<lparr>rq_method = ascii ''tools/list'', rq_params = None\<rparr>"

definition plain_render :: "zod_issue list \<Rightarrow> jsstring" where
  "plain_render issues =
     concat (map (\<lambda>i. case issue_message i of Some m \<Rightarrow> m | None \<Rightarrow> ascii ''Invalid input'')
               issues)"

definition generateImageNanoBanana :: UnifiedTool where
  "generateImageNanoBanana =
     \<lparr>tool_name = ascii ''generate_image_nano_banana'', zodSchema = ImageGenerationSchema,
      tool_execute = (\<lambda>a. ([OnProgress (ascii ''Preparing image generation request...''),
                       OnProgress (ascii ''Image generated successfully!'')],
                      Inr (ascii ''Image Generated Successfully!'')))\<rparr>"

definition image_tools :: "jsstring \<rightharpoonup> UnifiedTool" where
  "image_tools = [ascii ''generate_image_nano_banana'' \<mapsto> generateImageNanoBanana]"

definition empty_prompt_request :: CallToolRequest where
  "empty_prompt_request =
     \<lparr>params_name = ascii ''generate_image_nano_banana'',
      params_arguments = Some [(ascii ''prompt'', JStr [])],
      params_meta_progressToken = Some (TStr (ascii ''tok-1''))\<rparr>"

definition two_calls :: "wev list" where
  "two_calls = [Start 1 (ascii ''a'') (Some (TNum 1)), Start 2 (ascii ''b'') (Some (TNum 2))]"

definition overlapping_calls :: "wev list" where
  "overlapping_calls =
     [Start 1 (ascii ''a'') (Some (TNum 1)), Progress 1 (ascii ''working''),
      Start 2 (ascii ''b'') (Some (TNum 2)), Fire 1]"

section \<open>Facts about one invocation\<close>

lemma send_all_Nil [simp]: "send_all net out [] = out"
  by (simp add: send_all_def)

lemma send_all_Cons [simp]:
  "send_all net out (n # ns) = send_all net (snd (server_notification net n out)) ns"
  by (simp add: send_all_def)

lemma send_all_append: "send_all net out (xs @ ys) = send_all net (send_all net out xs) ys"
  by (simp add: send_all_def)

lemma emitted_send_all: "emitted (send_all net out ns) = emitted out @ ns"
  by (induction ns arbitrary: out) (simp_all add: emitted_def server_notification_def)

lemma length_progressMessages [simp]: "length (progressMessages n) = 5"
  by (simp add: progressMessages_def)

lemma progressMessages_nonempty: "progressMessages n ! (k mod 5) \<noteq> []"
proof -
  have "k mod 5 < 5" by simp
  then have "k mod 5 \<in> {0, 1, 2, 3, 4}" by auto
  then show ?thesis
    by (auto simp: progressMessages_def emoji_palette_def emoji_zap_def emoji_cycle_def
      emoji_hourglass_def emoji_target_def)
qed

lemma statusMessage_nonempty: "b \<noteq> [] \<Longrightarrow> statusMessage b s \<noteq> []"
  by (simp add: statusMessage_def Let_def)

lemma sendProgressNotification_truthy:
  "truthy (Some t) \<Longrightarrow> m \<noteq> [] \<Longrightarrow>
   sendProgressNotification net (Some t) p tot (Some m) out =
     snd (server_notification net
       \<lparr>note_method = PROTOCOL_NOTIFICATIONS_PROGRESS,
        note_params = ProgressParams t p tot (Some m)\<rparr> out)"
  by (simp add: sendProgressNotification_def server_notification_def split: option.splits)

lemma sendProgressNotification_falsy:
  "\<not> truthy tok \<Longrightarrow> sendProgressNotification net tok p tot m out = out"
  by (cases tok) (simp_all add: sendProgressNotification_def)

lemma timer_fires_active:
  assumes "isProcessing g" "truthy (Some t)" "progressToken ch = Some t" "\<not> cleared ch"
    "messageIndex ch = m" "progress ch = k" "pending ch = p"
  shows "timer_fires net g (ch, out) =
     (ch\<lparr>progress := Suc k, pending := Suc p\<rparr>,
      snd (server_notification net (tick_note (operationName ch) t k m (latestOutput g)) out))"
  using assms statusMessage_nonempty [OF progressMessages_nonempty, of "operationName ch" m "latestOutput g"]
  by (simp add: timer_fires_def progressInterval_def sendProgressNotification_truthy Let_def
      tick_note_def)

lemma awaiting_active:
  assumes "isProcessing g" "truthy (Some t)" "progressToken ch = Some t" "\<not> cleared ch"
    "messageIndex ch = m" "progress ch = k" "pending ch = p"
  shows "awaiting net evs (g, ch, out) =
     (g\<lparr>latestOutput := last_status (latestOutput g) evs\<rparr>,
      ch\<lparr>progress := k + intervals evs, messageIndex := fst (settles m p evs),
         pending := snd (settles m p evs)\<rparr>,
      send_all net out (ticks_of (operationName ch) t k m p (latestOutput g) evs))"
  using assms
proof (induction evs arbitrary: g ch out k m p)
  case Nil
  then show ?case by (simp add: intervals_def)
next
  case (Cons e evs)
  show ?case
  proof (cases e)
    case IntervalElapsed
    let ?ch = "ch\<lparr>progress := Suc k, pending := Suc p\<rparr>"
    let ?out = "snd (server_notification net
                  (tick_note (operationName ch) t k m (latestOutput g)) out)"
    have "awaiting net evs (g, ?ch, ?out) =
       (g\<lparr>latestOutput := last_status (latestOutput g) evs\<rparr>,
        ?ch\<lparr>progress := Suc k + intervals evs, messageIndex := fst (settles m (Suc p) evs),
            pending := snd (settles m (Suc p) evs)\<rparr>,
        send_all net ?out (ticks_of (operationName ?ch) t (Suc k) m (Suc p) (latestOutput g) evs))"
      by (rule Cons.IH) (use Cons.prems in simp_all)
    then show ?thesis
      using IntervalElapsed timer_fires_active [OF Cons.prems, of net out]
      by (simp add: intervals_def)
  next
    case SendSettled
    show ?thesis
    proof (cases "0 < p")
      case True
      let ?ch = "ch\<lparr>messageIndex := Suc m, pending := p - 1\<rparr>"
      have "awaiting net evs (g, ?ch, out) =
       (g\<lparr>latestOutput := last_status (latestOutput g) evs\<rparr>,
        ?ch\<lparr>progress := k + intervals evs, messageIndex := fst (settles (Suc m) (p - 1) evs),
            pending := snd (settles (Suc m) (p - 1) evs)\<rparr>,
        send_all net out (ticks_of (operationName ?ch) t k (Suc m) (p - 1) (latestOutput g) evs))"
        by (rule Cons.IH) (use Cons.prems in simp_all)
      then show ?thesis
        using SendSettled True Cons.prems
        by (simp add: intervals_def progressInterval_resumes_def)
    next
      case False
      have "awaiting net evs (g, ch, out) =
       (g\<lparr>latestOutput := last_status (latestOutput g) evs\<rparr>,
        ch\<lparr>progress := k + intervals evs, messageIndex := fst (settles m p evs),
            pending := snd (settles m p evs)\<rparr>,
        send_all net out (ticks_of (operationName ch) t k m p (latestOutput g) evs))"
        by (rule Cons.IH) (use Cons.prems in simp_all)
      then show ?thesis
        using SendSettled False Cons.prems
        by (simp add: intervals_def progressInterval_resumes_def)
    qed
  next
    case (OnProgress s)
    let ?g = "g\<lparr>latestOutput := s\<rparr>"
    have "awaiting net evs (?g, ch, out) =
     (?g\<lparr>latestOutput := last_status (latestOutput ?g) evs\<rparr>,
      ch\<lparr>progress := k + intervals evs, messageIndex := fst (settles m p evs),
         pending := snd (settles m p evs)\<rparr>,
      send_all net out (ticks_of (operationName ch) t k m p (latestOutput ?g) evs))"
      by (rule Cons.IH) (use Cons.prems in simp_all)
    then show ?thesis using OnProgress by (simp add: intervals_def)
  qed
qed

lemma timer_fires_silent:
  assumes "isProcessing g" "\<not> truthy (progressToken ch)"
  shows "timer_fires net g (ch, out) = (ch, out)"
  using assms by (simp add: timer_fires_def progressInterval_def)

lemma awaiting_silent:
  assumes "isProcessing g" "\<not> truthy (progressToken ch)" "pending ch = 0"
  shows "awaiting net evs (g, ch, out) =
     (g\<lparr>latestOutput := last_status (latestOutput g) evs\<rparr>, ch, out)"
  using assms
proof (induction evs arbitrary: g)
  case Nil
  then show ?case by simp
next
  case (Cons e evs)
  then show ?case
    by (cases e) (simp_all add: timer_fires_silent progressInterval_resumes_def)
qed

lemma handler_truthy:
  assumes "toolExists R (params_name request)"
    and "executeTool R (params_name request) (call_args request) = (evs, outcome)"
    and "params_meta_progressToken request = Some t" and "truthy (Some t)"
  shows "CallToolRequest_handler net R (g, out) request =
     (Inr (settled_result (params_name request) outcome),
      \<lparr>isProcessing = False, currentOperationName = [], latestOutput = last_status [] evs\<rparr>,
      Some \<lparr>operationName = params_name request, progressToken = Some t,
            messageIndex = fst (settles 0 0 evs), progress = intervals evs,
            pending = snd (settles 0 0 evs), cleared = True\<rparr>,
      send_all net out
        (start_note (params_name request) t
         # ticks_of (params_name request) t 0 0 0 [] evs
         @ [final_note (params_name request) t (\<not> isl outcome)]))"
proof -
  let ?n = "params_name request"
  let ?g1 = "\<lparr>isProcessing = True, currentOperationName = ?n, latestOutput = []\<rparr>"
  let ?ch1 = "\<lparr>operationName = ?n, progressToken = Some t, messageIndex = 0, progress = 0,
       pending = 0, cleared = False\<rparr>"
  let ?ch2 = "?ch1\<lparr>progress := intervals evs, messageIndex := fst (settles 0 0 evs),
         pending := snd (settles 0 0 evs)\<rparr>"
  let ?out1 = "snd (server_notification net (start_note ?n t) out)"
  have start: "startProgressUpdates net ?n (Some t) (g, out) = (?g1, ?ch1, ?out1)"
    using assms(4)
    by (simp add: startProgressUpdates_def sendProgressNotification_truthy start_note_def
        emoji_palette_def)
  have run: "awaiting net evs (?g1, ?ch1, ?out1) =
     (?g1\<lparr>latestOutput := last_status [] evs\<rparr>, ?ch2,
      send_all net ?out1 (ticks_of ?n t 0 0 0 [] evs))"
    using awaiting_active [of ?g1 t ?ch1 0 0 0 net evs ?out1] assms(4) by simp
  have stop: "stopProgressUpdates net ?ch2 b (?g1\<lparr>latestOutput := last_status [] evs\<rparr>, out') =
     (\<lparr>isProcessing = False, currentOperationName = [], latestOutput = last_status [] evs\<rparr>,
      \<lparr>operationName = ?n, progressToken = Some t,
            messageIndex = fst (settles 0 0 evs), progress = intervals evs,
            pending = snd (settles 0 0 evs), cleared = True\<rparr>,
      snd (server_notification net (final_note ?n t b) out'))" for b out'
    using assms(4)
    by (simp add: stopProgressUpdates_def sendProgressNotification_truthy final_note_def
        emoji_check_def emoji_cross_def Let_def)
  show ?thesis
    using assms(1,2,3) start run stop
    by (cases outcome)
       (simp_all add: CallToolRequest_handler_def call_args_def settled_result_def
          send_all_append Let_def)
qed

lemma handler_falsy:
  assumes "toolExists R (params_name request)"
    and "executeTool R (params_name request) (call_args request) = (evs, outcome)"
    and "\<not> truthy (params_meta_progressToken request)"
  shows "CallToolRequest_handler net R (g, out) request =
     (Inr (settled_result (params_name request) outcome),
      \<lparr>isProcessing = False, currentOperationName = [], latestOutput = last_status [] evs\<rparr>,
      Some \<lparr>operationName = params_name request,
            progressToken = params_meta_progressToken request,
            messageIndex = 0, progress = 0, pending = 0, cleared = True\<rparr>,
      out)"
proof -
  let ?n = "params_name request"
  let ?tok = "params_meta_progressToken request"
  let ?g1 = "\<lparr>isProcessing = True, currentOperationName = ?n, latestOutput = []\<rparr>"
  let ?ch1 = "\<lparr>operationName = ?n, progressToken = ?tok, messageIndex = 0, progress = 0,
       pending = 0, cleared = False\<rparr>"
  have start: "startProgressUpdates net ?n ?tok (g, out) = (?g1, ?ch1, out)"
    using assms(3) by (simp add: startProgressUpdates_def)
  have run: "awaiting net evs (?g1, ?ch1, out) =
     (?g1\<lparr>latestOutput := last_status [] evs\<rparr>, ?ch1, out)"
    using awaiting_silent [of ?g1 ?ch1 net evs out] assms(3) by simp
  have stop: "stopProgressUpdates net ?ch1 b (?g1\<lparr>latestOutput := last_status [] evs\<rparr>, out) =
     (\<lparr>isProcessing = False, currentOperationName = [], latestOutput = last_status [] evs\<rparr>,
      ?ch1\<lparr>cleared := True\<rparr>, out)" for b
    using assms(3) by (simp add: stopProgressUpdates_def Let_def)
  show ?thesis
    using assms(1,2) start run stop
    by (cases outcome)
       (simp_all add: CallToolRequest_handler_def call_args_def settled_result_def Let_def)
qed

lemma handler_result:
  assumes "toolExists R (params_name request)"
  shows "fst (CallToolRequest_handler net R (g, out) request) =
     Inr (settled_result (params_name request)
            (snd (executeTool R (params_name request) (call_args request))))"
proof -
  obtain evs outcome
    where ex: "executeTool R (params_name request) (call_args request) = (evs, outcome)"
    by (cases "executeTool R (params_name request) (call_args request)")
  show ?thesis
  proof (cases "truthy (params_meta_progressToken request)")
    case True
    then obtain t where "params_meta_progressToken request = Some t" "truthy (Some t)"
      by (cases "params_meta_progressToken request") auto
    then show ?thesis using handler_truthy [OF assms ex] ex by simp
  next
    case False
    then show ?thesis using handler_falsy [OF assms ex] ex by simp
  qed
qed

lemma length_ticks_of: "length (ticks_of n t k m p cur evs) = intervals evs"
  by (induction n t k m p cur evs rule: ticks_of.induct) (simp_all add: intervals_def)

lemma length_statuses_at_ticks: "length (statuses_at_ticks cur evs) = intervals evs"
  by (induction cur evs rule: statuses_at_ticks.induct) (simp_all add: intervals_def)

text \<open>
  When every send settles before the next interval, the message index of a tick is the
  number of ticks before it.
\<close>

lemma ticks_of_nth:
  "prompt waiting evs \<Longrightarrow> p = (if waiting then 1 else 0) \<Longrightarrow> i < intervals evs \<Longrightarrow>
   ticks_of n t k m p cur evs ! i
     = tick_note n t (k + i) (m + p + i) (statuses_at_ticks cur evs ! i)"
proof (induction n t k m p cur evs arbitrary: i waiting rule: ticks_of.induct)
  case (1 opName t k m p cur)
  then show ?case by (simp add: intervals_def)
next
  case (2 opName t k m p cur evs)
  from "2.prems" have w: "\<not> waiting" "prompt True evs" "p = 0" by auto
  show ?case
  proof (cases i)
    case 0
    then show ?thesis using w by simp
  next
    case (Suc j)
    then have "j < intervals evs" using "2.prems"(3) by (simp add: intervals_def)
    then have "ticks_of opName t (Suc k) m (Suc p) cur evs ! j
        = tick_note opName t (Suc k + j) (m + Suc p + j) (statuses_at_ticks cur evs ! j)"
      using "2.IH" [of True j] w by simp
    then show ?thesis using Suc w by simp
  qed
next
  case (3 opName t k m p cur evs)
  from "3.prems" have w: "waiting" "prompt False evs" "p = 1" by auto
  have "i < intervals evs" using "3.prems"(3) by (simp add: intervals_def)
  then have "ticks_of opName t k (Suc m) (p - 1) cur evs ! i
        = tick_note opName t (k + i) (Suc m + (p - 1) + i) (statuses_at_ticks cur evs ! i)"
    using "3.IH"(1) [of False i] w by simp
  then show ?case using w by simp
next
  case (4 opName t k m p cur s evs)
  then show ?case by (simp add: intervals_def)
qed

lemma emitted_server_notification:
  "emitted (snd (server_notification net n out)) = emitted out @ [n]"
  by (simp add: emitted_def server_notification_def)

lemma emitted_sendProgressNotification:
  "emitted (sendProgressNotification net tok p tot m out) =
   emitted (sendProgressNotification net' tok p tot m out)"
  by (cases tok)
     (simp_all add: sendProgressNotification_def server_notification_def emitted_def
        split: option.splits)

text \<open>
  With a truthy token the handler emits the start notification, one tick per elapsed
  interval and exactly one final notification with \<open>progress = total = 100\<close>; after the
  stop the timer is cleared, and a firing that was already due does nothing.
\<close>

lemma handler_emits:
  assumes "toolExists R (params_name request)"
    and "executeTool R (params_name request) (call_args request) = (evs, outcome)"
    and "params_meta_progressToken request = Some t" and "truthy (Some t)"
  shows "emitted (snd (snd (snd (CallToolRequest_handler net R (g, out) request)))) =
     emitted out @ start_note (params_name request) t
       # ticks_of (params_name request) t 0 0 0 [] evs
       @ [final_note (params_name request) t (\<not> isl outcome)]"
  using handler_truthy [OF assms, of net g out]
  by (simp add: emitted_send_all emitted_server_notification)

lemma timer_fires_after_stop:
  "stopProgressUpdates net ch success (g, out) = (g', ch', out') \<Longrightarrow>
   timer_fires net g'' (ch', out'') = (ch', out'')"
  by (auto simp: stopProgressUpdates_def timer_fires_def Let_def)

section \<open>Unknown operations\<close>

text \<open>
  C1 (as stated, refuted): for the name \<open>missing_tool\<close>, which no registry entry has, the
  handler of index.ts does not return a result tagged \<open>isError\<close>: it throws; and the demo
  server returns an error object that has no \<open>isError\<close> tag.
\<close>

theorem C1_unknown_tool_counterexample:
  "\<not> toolExists no_tools (params_name missing_tool_request)
   \<and> fst (CallToolRequest_handler reliable no_tools (initial_globals, []) missing_tool_request)
       = Inl (Error (ascii ''Unknown tool: missing_tool''))
   \<and> handleRequest [] missing_tool_demo_request
       = Inr (ErrorObject (ascii ''Unknown tool: missing_tool''))"
  by (simp add: CallToolRequest_handler_def handleRequest_def no_tools_def
      missing_tool_request_def missing_tool_demo_request_def ascii_def)

text \<open>
  C1 (amended): for every operation name that is not in the registry, the handler of
  index.ts throws an \<open>Error\<close> whose message is \<open>Unknown tool: \<close> followed by the literal
  name, starts no progress channel, emits no notification and leaves the module state as
  it was; the demo server answers with an error object carrying the same message.
\<close>

theorem C1_unknown_tool_raises:
  "(\<not> toolExists R (params_name request) \<longrightarrow>
      CallToolRequest_handler net R (g, out) request
        = (Inl (Error (ascii ''Unknown tool: '' @ params_name request)), g, None, out))
   \<and> (find (\<lambda>t. name t = call_name ps) tools = None \<longrightarrow>
      handleRequest tools \<lparr>rq_method = ascii ''tools/call'', rq_params = Some ps\<rparr>
        = Inr (ErrorObject (ascii ''Unknown tool: '' @ call_name ps)))"
  by (simp add: CallToolRequest_handler_def handleRequest_def ascii_def)

theorem C1_unknown_tool_raises_witness:
  "\<not> toolExists no_tools (params_name missing_tool_request)
   \<and> CallToolRequest_handler reliable no_tools (initial_globals, []) missing_tool_request
       = (Inl (Error (ascii ''Unknown tool: '' @ params_name missing_tool_request)),
          initial_globals, None, [])
   \<and> find (\<lambda>t. name t = call_name \<lparr>call_name = ascii ''missing_tool'', call_arguments = None\<rparr>)
        ([] :: toolRegistry) = None
   \<and> handleRequest [] \<lparr>rq_method = ascii ''tools/call'',
        rq_params = Some \<lparr>call_name = ascii ''missing_tool'', call_arguments = None\<rparr>\<rparr>
       = Inr (ErrorObject (ascii ''Unknown tool: ''
            @ call_name \<lparr>call_name = ascii ''missing_tool'', call_arguments = None\<rparr>))"
  using C1_unknown_tool_raises [of no_tools missing_tool_request reliable initial_globals "[]"
      "\<lparr>call_name = ascii ''missing_tool'', call_arguments = None\<rparr>" "[]"]
  by (simp add: no_tools_def)

section \<open>Faults thrown during execution\<close>

text \<open>
  C3: when the operation is registered and \<open>executeTool\<close> rejects with a thrown cause, the
  handler does not throw: it returns a text result tagged \<open>isError\<close> whose text ends with
  the message of the cause. A \<open>GeminiAPIError\<close> carrying a code gives its message followed
  by the code in parentheses, any other \<open>Error\<close> gives its message, and any other thrown
  value gives \<open>Unknown error occurred\<close>.
\<close>

theorem C3_thrown_cause_is_caught:
  assumes "toolExists R (params_name request)"
    and "snd (executeTool R (params_name request) (call_args request)) = Inl cause"
  shows "fst (CallToolRequest_handler net R (g, out) request) =
           Inr \<lparr>content_text = emoji_cross @ ascii '' Error executing '' @ params_name request
                    @ ascii '': '' @ errorMessage cause,
                 isError = True\<rparr>
         \<and> errorMessage (GeminiAPIError m (Some c) s) = m @ ascii '' ('' @ c @ ascii '')''
         \<and> errorMessage (Error m) = m
         \<and> errorMessage (NonError v) = ascii ''Unknown error occurred''"
  using handler_result [OF assms(1), of net g out] assms(2)
  by (simp add: settled_result_def)

text \<open>The scenario of the specification: a tool that throws \<open>Error("boom")\<close>.\<close>

theorem C3_thrown_cause_is_caught_witness:
  "toolExists boom_tool (params_name (echo_request None))
   \<and> snd (executeTool boom_tool (params_name (echo_request None))
            (call_args (echo_request None))) = Inl (Error (ascii ''boom''))
   \<and> fst (CallToolRequest_handler reliable boom_tool (initial_globals, []) (echo_request None))
       = Inr \<lparr>content_text = emoji_cross @ ascii '' Error executing echo: boom'',
             isError = True\<rparr>"
proof -
  have a: "toolExists boom_tool (params_name (echo_request None))"
    by (simp add: boom_tool_def single_tool_def echo_request_def)
  have b: "snd (executeTool boom_tool (params_name (echo_request None))
            (call_args (echo_request None))) = Inl (Error (ascii ''boom''))"
    by (simp add: boom_tool_def single_tool_def)
  show ?thesis
    using a b C3_thrown_cause_is_caught [OF a b, of reliable initial_globals "[]"]
    by (simp add: echo_request_def ascii_def)
qed

section \<open>Invocations without a token\<close>

text \<open>
  C7: when the caller supplied no progress token, the handler hands nothing to the
  transport at any point: \<open>sendProgressNotification\<close> returns at once, neither the start,
  nor a timer tick, nor the stop sends anything; the module state is still maintained
  (\<open>isProcessing\<close> and \<open>currentOperationName\<close> are set at the start and cleared at the stop).
\<close>

theorem C7_absent_token_is_silent:
  "(params_meta_progressToken request = None \<longrightarrow>
      snd (snd (snd (CallToolRequest_handler net R (g, out) request))) = out)
   \<and> sendProgressNotification net None p tot m out = out
   \<and> startProgressUpdates net n None (g, out) =
       (\<lparr>isProcessing = True, currentOperationName = n, latestOutput = []\<rparr>,
        \<lparr>operationName = n, progressToken = None, messageIndex = 0, progress = 0,
         pending = 0, cleared = False\<rparr>, out)
   \<and> snd (timer_fires net g (ch\<lparr>progressToken := None\<rparr>, out)) = out
   \<and> stopProgressUpdates net (ch\<lparr>progressToken := None\<rparr>) success (g, out) =
       (g\<lparr>isProcessing := False, currentOperationName := []\<rparr>,
        ch\<lparr>progressToken := None, cleared := True\<rparr>, out)"
proof -
  have "snd (snd (snd (CallToolRequest_handler net R (g, out) request))) = out"
    if none: "params_meta_progressToken request = None"
  proof (cases "toolExists R (params_name request)")
    case True
    obtain evs outcome
      where ex: "executeTool R (params_name request) (call_args request) = (evs, outcome)"
      by (cases "executeTool R (params_name request) (call_args request)")
    show ?thesis using handler_falsy [OF True ex, of net g out] none by simp
  next
    case False
    then show ?thesis by (simp add: CallToolRequest_handler_def)
  qed
  moreover have "snd (timer_fires net g (ch\<lparr>progressToken := None\<rparr>, out)) = out"
    by (simp add: timer_fires_def progressInterval_def)
  ultimately show ?thesis
    by (simp add: sendProgressNotification_def startProgressUpdates_def
        stopProgressUpdates_def Let_def)
qed

theorem C7_absent_token_is_silent_witness:
  "params_meta_progressToken (echo_request None) = None
   \<and> snd (snd (snd (CallToolRequest_handler reliable slow_tool (initial_globals, [])
        (echo_request None)))) = []"
  using C7_absent_token_is_silent [of "echo_request None" reliable slow_tool initial_globals "[]"]
  by (simp add: echo_request_def)

section \<open>The status buffer\<close>

text \<open>
  C9: \<open>startProgressUpdates\<close> empties \<open>latestOutput\<close> before anything is sent, so an
  invocation of a registered operation that runs alone behaves the same whatever the
  module variables held before: no tick carries a status left by an earlier invocation.
\<close>

theorem C9_status_is_reset_at_start:
  "latestOutput (fst (startProgressUpdates net n tok (g, out))) = []
   \<and> (toolExists R (params_name request) \<longrightarrow>
        CallToolRequest_handler net R (g, out) request
          = CallToolRequest_handler net R (g', out) request)"
proof -
  have "CallToolRequest_handler net R (g, out) request
          = CallToolRequest_handler net R (g', out) request"
    if reg: "toolExists R (params_name request)"
  proof -
    obtain evs outcome
      where ex: "executeTool R (params_name request) (call_args request) = (evs, outcome)"
      by (cases "executeTool R (params_name request) (call_args request)")
    show ?thesis
    proof (cases "truthy (params_meta_progressToken request)")
      case True
      then obtain t where t: "params_meta_progressToken request = Some t" "truthy (Some t)"
        by (cases "params_meta_progressToken request") auto
      show ?thesis
        using handler_truthy [OF reg ex t, of net g out] handler_truthy [OF reg ex t, of net g' out]
        by simp
    next
      case False
      show ?thesis
        using handler_falsy [OF reg ex False, of net g out]
          handler_falsy [OF reg ex False, of net g' out]
        by simp
    qed
  qed
  then show ?thesis by (simp add: startProgressUpdates_def)
qed

theorem C9_status_is_reset_at_start_witness:
  "toolExists slow_tool (params_name (echo_request (Some (TStr (ascii ''tok-1'')))))
   \<and> CallToolRequest_handler reliable slow_tool (stale_globals, [])
        (echo_request (Some (TStr (ascii ''tok-1''))))
     = CallToolRequest_handler reliable slow_tool (initial_globals, [])
        (echo_request (Some (TStr (ascii ''tok-1''))))"
  using C9_status_is_reset_at_start [of reliable "[]" None stale_globals "[]" slow_tool
      "echo_request (Some (TStr (ascii ''tok-1'')))" initial_globals]
  by (simp add: slow_tool_def single_tool_def echo_request_def)

section \<open>Failures of the notification channel\<close>

text \<open>
  C10: \<open>sendNotification\<close> and \<open>sendProgressNotification\<close> catch whatever the transport
  throws, so the handler's result (text and \<open>isError\<close>), the module state it leaves and the
  notifications it hands to the transport are the same for every behaviour of the
  transport.
\<close>

theorem C10_notification_failure_is_contained:
  "fst (CallToolRequest_handler net R (g, out) request)
     = fst (CallToolRequest_handler net' R (g, out) request)
   \<and> fst (snd (CallToolRequest_handler net R (g, out) request))
     = fst (snd (CallToolRequest_handler net' R (g, out) request))
   \<and> emitted (snd (snd (snd (CallToolRequest_handler net R (g, out) request))))
     = emitted (snd (snd (snd (CallToolRequest_handler net' R (g, out) request))))
   \<and> emitted (sendProgressNotification net tok p tot m out)
     = emitted (sendProgressNotification net' tok p tot m out)
   \<and> emitted (sendNotification net meth ps out)
     = emitted out @ [\<lparr>note_method = meth, note_params = ps\<rparr>]"
proof (cases "toolExists R (params_name request)")
  case False
  then show ?thesis
    using emitted_sendProgressNotification [of net tok p tot m out net']
    by (simp add: CallToolRequest_handler_def sendNotification_def server_notification_def
        emitted_def split: option.splits)
next
  case reg: True
  obtain evs outcome
    where ex: "executeTool R (params_name request) (call_args request) = (evs, outcome)"
    by (cases "executeTool R (params_name request) (call_args request)")
  have "fst (CallToolRequest_handler net R (g, out) request)
     = fst (CallToolRequest_handler net' R (g, out) request)
   \<and> fst (snd (CallToolRequest_handler net R (g, out) request))
     = fst (snd (CallToolRequest_handler net' R (g, out) request))
   \<and> emitted (snd (snd (snd (CallToolRequest_handler net R (g, out) request))))
     = emitted (snd (snd (snd (CallToolRequest_handler net' R (g, out) request))))"
  proof (cases "truthy (params_meta_progressToken request)")
    case True
    then obtain t where t: "params_meta_progressToken request = Some t" "truthy (Some t)"
      by (cases "params_meta_progressToken request") auto
    show ?thesis
      using handler_truthy [OF reg ex t, of net g out] handler_truthy [OF reg ex t, of net' g out]
      by (simp add: emitted_send_all emitted_server_notification)
  next
    case False
    show ?thesis
      using handler_falsy [OF reg ex False, of net g out]
        handler_falsy [OF reg ex False, of net' g out]
      by simp
  qed
  then show ?thesis
    using emitted_sendProgressNotification [of net tok p tot m out net']
    by (simp add: sendNotification_def server_notification_def emitted_def split: option.splits)
qed

text \<open>A transport that throws on every send against one that never does.\<close>

theorem C10_notification_failure_is_contained_witness:
  "fst (CallToolRequest_handler broken slow_tool (initial_globals, [])
          (echo_request (Some (TStr (ascii ''tok-1'')))))
     = Inr \<lparr>content_text = ascii ''hi'', isError = False\<rparr>
   \<and> fst (CallToolRequest_handler reliable slow_tool (initial_globals, [])
          (echo_request (Some (TStr (ascii ''tok-1'')))))
     = Inr \<lparr>content_text = ascii ''hi'', isError = False\<rparr>"
proof -
  have "fst (CallToolRequest_handler reliable slow_tool (initial_globals, [])
          (echo_request (Some (TStr (ascii ''tok-1'')))))
     = Inr \<lparr>content_text = ascii ''hi'', isError = False\<rparr>"
    using handler_result [of slow_tool "echo_request (Some (TStr (ascii ''tok-1'')))" reliable
        initial_globals "[]"]
    by (simp add: slow_tool_def single_tool_def echo_request_def settled_result_def)
  then show ?thesis
    using C10_notification_failure_is_contained [of broken slow_tool initial_globals "[]"
        "echo_request (Some (TStr (ascii ''tok-1'')))" reliable]
    by simp
qed

section \<open>Stopping the channel\<close>

text \<open>
  C4 (evaluated where it fails): the caller supplied the progress token \<open>0\<close>, two
  intervals elapsed and the operation succeeded; the handler sent nothing at all, so there
  is no final notification with \<open>progress = total = 100\<close>. The guards test the token by
  truthiness, and \<open>0\<close> (like the empty string) is a token that is falsy.
\<close>

theorem C4_falsy_token_gets_no_terminal_tick:
  "toolExists slow_tool (params_name (echo_request (Some (TNum 0))))
   \<and> CallToolRequest_handler reliable slow_tool (initial_globals, [])
        (echo_request (Some (TNum 0)))
     = (Inr \<lparr>content_text = ascii ''hi'', isError = False\<rparr>,
        \<lparr>isProcessing = False, currentOperationName = [], latestOutput = ascii ''ok ''\<rparr>,
        Some \<lparr>operationName = ascii ''echo'', progressToken = Some (TNum 0),
              messageIndex = 0, progress = 0, pending = 0, cleared = True\<rparr>,
        [])"
proof -
  have reg: "toolExists slow_tool (params_name (echo_request (Some (TNum 0))))"
    by (simp add: slow_tool_def single_tool_def echo_request_def)
  have ex: "executeTool slow_tool (params_name (echo_request (Some (TNum 0))))
              (call_args (echo_request (Some (TNum 0))))
            = ([IntervalElapsed, SendSettled, OnProgress (ascii ''ok ''), IntervalElapsed,
                SendSettled], Inr (ascii ''hi''))"
    by (simp add: slow_tool_def single_tool_def)
  have falsy: "\<not> truthy (params_meta_progressToken (echo_request (Some (TNum 0))))"
    by (simp add: echo_request_def)
  show ?thesis
    using reg handler_falsy [OF reg ex falsy, of reliable initial_globals "[]"]
    by (simp add: echo_request_def settled_result_def)
qed

section \<open>Registering a name twice\<close>

text \<open>
  C8 (as stated, refuted): two definitions are registered under the name \<open>echo\<close>. A call
  of \<open>echo\<close> runs the first one, not the most recently registered, and the catalog lists
  both entries although no new name was registered.
\<close>

theorem C8_duplicate_registration_counterexample:
  "name tool_two = name tool_one
   \<and> handleRequest (registerTool tool_two (registerTool tool_one [])) call_echo
       = Inr (ToolResult \<lparr>content_text = ascii ''one'', isError = False\<rparr>)
   \<and> handleRequest (registerTool tool_two (registerTool tool_one [])) list_request
       = Inr (ToolsList [list_tool tool_one, list_tool tool_two])"
  by (simp add: handleRequest_def registerTool_def tool_one_def tool_two_def call_echo_def
      list_request_def ascii_def)

lemma register_sequence: "foldl (\<lambda>reg tool. registerTool tool reg) reg0 ts = reg0 @ ts"
  by (induction ts arbitrary: reg0) (simp_all add: registerTool_def)

text \<open>
  C8 (amended): \<open>registerTool\<close> never fails and appends the definition to the registry
  array, also when its name is already registered; after any sequence of registrations
  the registry is that sequence. The catalog lists every registered entry in registration
  order, the existing entries keeping their places, and a lookup by name finds the
  earliest entry registered under that name: a call of an already registered name is
  answered as before the later registration.
\<close>

theorem C8_registration_appends:
  "registerTool tool reg = reg @ [tool]
   \<and> foldl (\<lambda>r t. registerTool t r) [] ts = ts
   \<and> handleRequest (registerTool tool reg) \<lparr>rq_method = ascii ''tools/list'', rq_params = ps\<rparr>
       = Inr (ToolsList (map list_tool reg @ [list_tool tool]))
   \<and> find (\<lambda>t. name t = n) (registerTool tool reg)
       = (case find (\<lambda>t. name t = n) reg of
            Some first \<Rightarrow> Some first
          | None \<Rightarrow> if name tool = n then Some tool else None)
   \<and> (find (\<lambda>t. name t = call_name call) reg \<noteq> None \<longrightarrow>
        handleRequest (registerTool tool reg)
          \<lparr>rq_method = ascii ''tools/call'', rq_params = Some call\<rparr>
        = handleRequest reg \<lparr>rq_method = ascii ''tools/call'', rq_params = Some call\<rparr>)"
proof -
  have f: "find (\<lambda>t. name t = n) (reg @ [tool])
       = (case find (\<lambda>t. name t = n) reg of
            Some first \<Rightarrow> Some first
          | None \<Rightarrow> if name tool = n then Some tool else None)" for n
    by (induction reg) simp_all
  have "handleRequest (reg @ [tool])
          \<lparr>rq_method = ascii ''tools/call'', rq_params = Some call\<rparr>
        = handleRequest reg \<lparr>rq_method = ascii ''tools/call'', rq_params = Some call\<rparr>"
    if "find (\<lambda>t. name t = call_name call) reg \<noteq> None"
    using that f [of "call_name call"] by (auto simp: handleRequest_def ascii_def)
  then show ?thesis
    using f [of n] register_sequence [of "[]" ts]
    by (simp add: registerTool_def handleRequest_def ascii_def)
qed

theorem C8_registration_appends_witness:
  "find (\<lambda>t. name t = call_name \<lparr>call_name = ascii ''echo'', call_arguments = None\<rparr>)
      [tool_one] \<noteq> None
   \<and> handleRequest (registerTool tool_two [tool_one])
        \<lparr>rq_method = ascii ''tools/call'',
         rq_params = Some \<lparr>call_name = ascii ''echo'', call_arguments = None\<rparr>\<rparr>
     = handleRequest [tool_one]
        \<lparr>rq_method = ascii ''tools/call'',
         rq_params = Some \<lparr>call_name = ascii ''echo'', call_arguments = None\<rparr>\<rparr>"
proof -
  have a: "find (\<lambda>t. name t = call_name \<lparr>call_name = ascii ''echo'', call_arguments = None\<rparr>)
      [tool_one] \<noteq> None"
    by (simp add: tool_one_def)
  show ?thesis
    using a C8_registration_appends [of tool_two "[tool_one]" "[]" None "[]"
        "\<lparr>call_name = ascii ''echo'', call_arguments = None\<rparr>"]
    by blast
qed

section \<open>Arguments that violate the schema\<close>

lemma empty_prompt_is_rejected:
  "ImageGenerationSchema (call_args empty_prompt_request)
     = Inl [Issue (ascii ''prompt'') too_small (Some (ascii ''Prompt is required''))]"
  by (simp add: ImageGenerationSchema_def z_object_def z_string_min_max_def z_enum_default_def
      z_int_min_max_optional_def call_args_def empty_prompt_request_def ascii_def)

lemma registry_of_simps [simp]:
  "toolExists (registry_of render reg) n = (reg n \<noteq> None)"
  "executeTool (registry_of render reg) n a = snd (executeTool_spec render reg n a)"
  by (simp_all add: registry_of_def toolExists_spec_def)

lemma executeTool_spec_invalid:
  "reg n = Some tool \<Longrightarrow> zodSchema tool a = Inl issues \<Longrightarrow>
   executeTool_spec render reg n a = ([], [], Inl (Error (render issues)))"
  by (simp add: executeTool_spec_def)

text \<open>
  C2 (as stated, refuted): the prompt of the request is empty, which violates
  \<open>min(1)\<close> of \<open>ImageGenerationSchema\<close>; the handler nevertheless started the progress
  channel: the start notification and the final failure notification were sent.
\<close>

theorem C2_channel_started_counterexample:
  "ImageGenerationSchema (call_args empty_prompt_request)
     = Inl [Issue (ascii ''prompt'') too_small (Some (ascii ''Prompt is required''))]
   \<and> emitted (snd (snd (snd (CallToolRequest_handler reliable
         (registry_of plain_render image_tools) (initial_globals, []) empty_prompt_request))))
     = [start_note (ascii ''generate_image_nano_banana'') (TStr (ascii ''tok-1'')),
        final_note (ascii ''generate_image_nano_banana'') (TStr (ascii ''tok-1'')) False]"
proof -
  let ?R = "registry_of plain_render image_tools"
  have a: "image_tools (params_name empty_prompt_request) = Some generateImageNanoBanana"
    by (simp add: image_tools_def empty_prompt_request_def)
  have b: "zodSchema generateImageNanoBanana (call_args empty_prompt_request)
       = Inl [Issue (ascii ''prompt'') too_small (Some (ascii ''Prompt is required''))]"
    by (simp add: generateImageNanoBanana_def empty_prompt_is_rejected)
  have reg: "toolExists ?R (params_name empty_prompt_request)"
    using a by simp
  have ex: "executeTool ?R (params_name empty_prompt_request) (call_args empty_prompt_request)
     = ([], Inl (Error (plain_render
          [Issue (ascii ''prompt'') too_small (Some (ascii ''Prompt is required''))])))"
    using executeTool_spec_invalid [of image_tools "params_name empty_prompt_request"
        generateImageNanoBanana "call_args empty_prompt_request"
        "[Issue (ascii ''prompt'') too_small (Some (ascii ''Prompt is required''))]"
        plain_render, OF a b] by simp
  have tok: "params_meta_progressToken empty_prompt_request = Some (TStr (ascii ''tok-1''))"
    by (simp add: empty_prompt_request_def)
  have tr: "truthy (Some (TStr (ascii ''tok-1'')))"
    by (simp add: ascii_def)
  have nm: "params_name empty_prompt_request = ascii ''generate_image_nano_banana''"
    by (simp add: empty_prompt_request_def)
  show ?thesis
    using handler_emits [OF reg ex tok tr, of reliable initial_globals "[]"]
    by (simp add: empty_prompt_is_rejected nm emitted_def)
qed

text \<open>
  C2 (amended): for every registered operation and every raw-argument value that its
  schema rejects, the handler returns a result tagged \<open>isError\<close> whose text names the
  issues, and \<open>execute\<close> is never invoked; the progress channel is started before the
  validation and stopped with failure, so with a truthy token exactly the start
  notification and the final failure notification are emitted.
\<close>

theorem C2_validation_failure:
  assumes "reg (params_name request) = Some tool"
    and "zodSchema tool (call_args request) = Inl issues"
  shows "fst (CallToolRequest_handler net (registry_of render reg) (g, out) request)
           = Inr \<lparr>content_text = emoji_cross @ ascii '' Error executing '' @ params_name request
                    @ ascii '': '' @ render issues,
                 isError = True\<rparr>
         \<and> fst (executeTool_spec render reg (params_name request) (call_args request)) = []
         \<and> (params_meta_progressToken request = Some t \<and> truthy (Some t) \<longrightarrow>
              emitted (snd (snd (snd
                (CallToolRequest_handler net (registry_of render reg) (g, out) request))))
              = emitted out @ [start_note (params_name request) t,
                               final_note (params_name request) t False])"
proof -
  let ?R = "registry_of render reg"
  have reg: "toolExists ?R (params_name request)"
    using assms(1) by simp
  have ex: "executeTool ?R (params_name request) (call_args request)
              = ([], Inl (Error (render issues)))"
    using executeTool_spec_invalid [of reg "params_name request" tool "call_args request" issues render,
        OF assms] by simp
  have res: "fst (CallToolRequest_handler net ?R (g, out) request)
           = Inr \<lparr>content_text = emoji_cross @ ascii '' Error executing '' @ params_name request
                    @ ascii '': '' @ render issues,
                 isError = True\<rparr>"
    using handler_result [OF reg, of net g out] ex by (simp add: settled_result_def)
  have spy: "fst (executeTool_spec render reg (params_name request) (call_args request)) = []"
    using executeTool_spec_invalid [of reg "params_name request" tool "call_args request" issues render,
        OF assms] by simp
  have ticks: "emitted (snd (snd (snd (CallToolRequest_handler net ?R (g, out) request))))
              = emitted out @ [start_note (params_name request) t,
                               final_note (params_name request) t False]"
    if "params_meta_progressToken request = Some t" "truthy (Some t)"
    using handler_emits [OF reg ex that, of net g out] by simp
  show ?thesis using res spy ticks by blast
qed

theorem C2_validation_failure_witness:
  "image_tools (params_name empty_prompt_request) = Some generateImageNanoBanana
   \<and> zodSchema generateImageNanoBanana (call_args empty_prompt_request)
       = Inl [Issue (ascii ''prompt'') too_small (Some (ascii ''Prompt is required''))]
   \<and> fst (CallToolRequest_handler reliable (registry_of plain_render image_tools)
            (initial_globals, []) empty_prompt_request)
       = Inr \<lparr>content_text = emoji_cross
                 @ ascii '' Error executing generate_image_nano_banana: Prompt is required'',
             isError = True\<rparr>
   \<and> fst (executeTool_spec plain_render image_tools (params_name empty_prompt_request)
            (call_args empty_prompt_request)) = []
   \<and> params_meta_progressToken empty_prompt_request = Some (TStr (ascii ''tok-1''))
   \<and> truthy (Some (TStr (ascii ''tok-1'')))
   \<and> emitted (snd (snd (snd (CallToolRequest_handler reliable
         (registry_of plain_render image_tools) (initial_globals, []) empty_prompt_request))))
     = emitted [] @ [start_note (params_name empty_prompt_request) (TStr (ascii ''tok-1'')),
                     final_note (params_name empty_prompt_request) (TStr (ascii ''tok-1'')) False]"
proof -
  have a: "image_tools (params_name empty_prompt_request) = Some generateImageNanoBanana"
    by (simp add: image_tools_def empty_prompt_request_def)
  have b: "zodSchema generateImageNanoBanana (call_args empty_prompt_request)
       = Inl [Issue (ascii ''prompt'') too_small (Some (ascii ''Prompt is required''))]"
    by (simp add: generateImageNanoBanana_def empty_prompt_is_rejected)
  have nm: "params_name empty_prompt_request = ascii ''generate_image_nano_banana''"
    by (simp add: empty_prompt_request_def)
  have r: "plain_render [Issue (ascii ''prompt'') too_small (Some (ascii ''Prompt is required''))]
            = ascii ''Prompt is required''"
    by (simp add: plain_render_def)
  have c: "fst (CallToolRequest_handler reliable (registry_of plain_render image_tools)
            (initial_globals, []) empty_prompt_request)
       = Inr \<lparr>content_text = emoji_cross
                 @ ascii '' Error executing generate_image_nano_banana: Prompt is required'',
             isError = True\<rparr>"
    using C2_validation_failure [where reg = image_tools and request = empty_prompt_request
        and tool = generateImageNanoBanana
        and issues = "[Issue (ascii ''prompt'') too_small (Some (ascii ''Prompt is required''))]"
        and net = reliable and render = plain_render and g = initial_globals and out = "[]",
        OF a b, THEN conjunct1]
    by (simp add: nm r) (simp add: ascii_def)
  have d: "fst (executeTool_spec plain_render image_tools (params_name empty_prompt_request)
            (call_args empty_prompt_request)) = []"
    using C2_validation_failure [where reg = image_tools and request = empty_prompt_request
        and tool = generateImageNanoBanana
        and issues = "[Issue (ascii ''prompt'') too_small (Some (ascii ''Prompt is required''))]"
        and net = reliable and render = plain_render and g = initial_globals and out = "[]",
        OF a b]
    by blast
  have e: "params_meta_progressToken empty_prompt_request = Some (TStr (ascii ''tok-1''))"
    by (simp add: empty_prompt_request_def)
  have f: "truthy (Some (TStr (ascii ''tok-1'')))"
    by (simp add: ascii_def)
  have "emitted (snd (snd (snd (CallToolRequest_handler reliable
         (registry_of plain_render image_tools) (initial_globals, []) empty_prompt_request))))
     = emitted [] @ [start_note (params_name empty_prompt_request) (TStr (ascii ''tok-1'')),
                     final_note (params_name empty_prompt_request) (TStr (ascii ''tok-1'')) False]"
    using e f C2_validation_failure [where reg = image_tools and request = empty_prompt_request
        and tool = generateImageNanoBanana
        and issues = "[Issue (ascii ''prompt'') too_small (Some (ascii ''Prompt is required''))]"
        and net = reliable and render = plain_render and g = initial_globals and out = "[]"
        and t = "TStr (ascii ''tok-1'')", OF a b]
    by blast
  then show ?thesis using a b c d e f by blast
qed

section \<open>The message of a tick\<close>

lemma trim_Nil: "trim [] = []"
  by (simp add: trim_def)

lemma trim_ok: "trim (slice_last 100 (ascii ''ok '')) = ascii ''ok''"
  by (simp add: trim_def slice_last_def ascii_def is_js_whitespace_def)

lemma trim_working: "trim (slice_last 100 (ascii ''working'')) = ascii ''working''"
  by (simp add: trim_def slice_last_def ascii_def is_js_whitespace_def)

lemma slow_tool_ticks:
  "emitted (snd (snd (snd (CallToolRequest_handler reliable slow_tool (initial_globals, [])
        (echo_request (Some (TStr (ascii ''tok-1''))))))))
   = [start_note (ascii ''echo'') (TStr (ascii ''tok-1'')),
      tick_note (ascii ''echo'') (TStr (ascii ''tok-1'')) 0 0 [],
      tick_note (ascii ''echo'') (TStr (ascii ''tok-1'')) 1 1 (ascii ''ok ''),
      final_note (ascii ''echo'') (TStr (ascii ''tok-1'')) True]"
proof -
  let ?rq = "echo_request (Some (TStr (ascii ''tok-1'')))"
  have reg: "toolExists slow_tool (params_name ?rq)"
    by (simp add: slow_tool_def single_tool_def echo_request_def)
  have ex: "executeTool slow_tool (params_name ?rq) (call_args ?rq)
            = ([IntervalElapsed, SendSettled, OnProgress (ascii ''ok ''), IntervalElapsed,
                SendSettled], Inr (ascii ''hi''))"
    by (simp add: slow_tool_def single_tool_def)
  have tok: "params_meta_progressToken ?rq = Some (TStr (ascii ''tok-1''))"
    by (simp add: echo_request_def)
  have tr: "truthy (Some (TStr (ascii ''tok-1'')))"
    by (simp add: ascii_def)
  have nm: "params_name ?rq = ascii ''echo''"
    by (simp add: echo_request_def)
  show ?thesis
    using handler_emits [OF reg ex tok tr, of reliable initial_globals "[]"]
    by (simp add: nm emitted_def)
qed

lemma lagging_tool_ticks:
  "emitted (snd (snd (snd (CallToolRequest_handler reliable lagging_tool (initial_globals, [])
        (echo_request (Some (TStr (ascii ''tok-1''))))))))
   = [start_note (ascii ''echo'') (TStr (ascii ''tok-1'')),
      tick_note (ascii ''echo'') (TStr (ascii ''tok-1'')) 0 0 [],
      tick_note (ascii ''echo'') (TStr (ascii ''tok-1'')) 1 0 [],
      final_note (ascii ''echo'') (TStr (ascii ''tok-1'')) True]"
proof -
  let ?rq = "echo_request (Some (TStr (ascii ''tok-1'')))"
  have reg: "toolExists lagging_tool (params_name ?rq)"
    by (simp add: lagging_tool_def single_tool_def echo_request_def)
  have ex: "executeTool lagging_tool (params_name ?rq) (call_args ?rq)
            = ([IntervalElapsed, IntervalElapsed], Inr (ascii ''hi''))"
    by (simp add: lagging_tool_def single_tool_def)
  have tok: "params_meta_progressToken ?rq = Some (TStr (ascii ''tok-1''))"
    by (simp add: echo_request_def)
  have tr: "truthy (Some (TStr (ascii ''tok-1'')))"
    by (simp add: ascii_def)
  have nm: "params_name ?rq = ascii ''echo''"
    by (simp add: echo_request_def)
  show ?thesis
    using handler_emits [OF reg ex tok tr, of reliable initial_globals "[]"]
    by (simp add: nm emitted_def)
qed

lemma overlapping_calls_wire:
  "emitted (wire (run reliable initial_world overlapping_calls))
   = [start_note (ascii ''a'') (TNum 1), start_note (ascii ''b'') (TNum 2),
      tick_note (ascii ''a'') (TNum 1) 0 0 []]"
  by (simp add: run_def overlapping_calls_def initial_world_def initial_globals_def
      startProgressUpdates_def sendProgressNotification_def server_notification_def
      timer_fires_def progressInterval_def reliable_def start_note_def tick_note_def
      emitted_def emoji_palette_def statusMessage_def trim_Nil slice_last_def
      progressMessages_def Let_def)

text \<open>
  C6 (as stated, refuted), at three inputs. The operation pushed the status \<open>ok \<close> (with
  a trailing space) before the second interval: its last 100 code units are the whole
  status, yet the second tick carries the excerpt \<open>ok\<close>. The send of the first tick had
  not settled when the second interval elapsed: the second tick repeats the phase message
  of index 0. A second invocation started after the first had pushed \<open>working\<close>: the tick
  of the first carries the phase message alone.
\<close>

theorem C6_status_excerpt_counterexample:
  "slice_last 100 (ascii ''ok '') = ascii ''ok ''
   \<and> p_message (note_params (emitted (snd (snd (snd
         (CallToolRequest_handler reliable slow_tool (initial_globals, [])
            (echo_request (Some (TStr (ascii ''tok-1'')))))))) ! 2))
       = Some (progressMessages (ascii ''echo'') ! 1 @ [0xA] @ emoji_memo
               @ ascii '' Status: ...ok'')
   \<and> \<not> suffix (ascii ''ok '')
         (progressMessages (ascii ''echo'') ! 1 @ [0xA] @ emoji_memo @ ascii '' Status: ...ok'')
   \<and> p_message (note_params (emitted (snd (snd (snd
         (CallToolRequest_handler reliable lagging_tool (initial_globals, [])
            (echo_request (Some (TStr (ascii ''tok-1'')))))))) ! 2))
       = Some (progressMessages (ascii ''echo'') ! 0)
   \<and> progressMessages (ascii ''echo'') ! 0 \<noteq> progressMessages (ascii ''echo'') ! 1
   \<and> p_token (note_params (emitted (wire (run reliable initial_world overlapping_calls)) ! 2))
       = TNum 1
   \<and> p_message (note_params (emitted (wire (run reliable initial_world overlapping_calls)) ! 2))
       = Some (progressMessages (ascii ''a'') ! 0)"
proof -
  have a: "slice_last 100 (ascii ''ok '') = ascii ''ok ''"
    by (simp add: slice_last_def ascii_def)
  have b: "p_message (note_params (emitted (snd (snd (snd
         (CallToolRequest_handler reliable slow_tool (initial_globals, [])
            (echo_request (Some (TStr (ascii ''tok-1'')))))))) ! 2))
       = Some (progressMessages (ascii ''echo'') ! 1 @ [0xA] @ emoji_memo
               @ ascii '' Status: ...ok'')"
    by (simp add: slow_tool_ticks tick_note_def statusMessage_def trim_ok Let_def)
       (simp add: ascii_def)
  have c: "\<not> suffix (ascii ''ok '')
         (progressMessages (ascii ''echo'') ! 1 @ [0xA] @ emoji_memo @ ascii '' Status: ...ok'')"
    by (simp add: suffix_to_prefix progressMessages_def emoji_zap_def emoji_memo_def ascii_def)
  have d: "p_message (note_params (emitted (snd (snd (snd
         (CallToolRequest_handler reliable lagging_tool (initial_globals, [])
            (echo_request (Some (TStr (ascii ''tok-1'')))))))) ! 2))
       = Some (progressMessages (ascii ''echo'') ! 0)"
    by (simp add: lagging_tool_ticks tick_note_def statusMessage_def trim_Nil slice_last_def
        Let_def)
  have e: "progressMessages (ascii ''echo'') ! 0 \<noteq> progressMessages (ascii ''echo'') ! 1"
    by (simp add: progressMessages_def emoji_palette_def emoji_zap_def)
  have f: "p_token (note_params (emitted (wire (run reliable initial_world overlapping_calls)) ! 2))
       = TNum 1
   \<and> p_message (note_params (emitted (wire (run reliable initial_world overlapping_calls)) ! 2))
       = Some (progressMessages (ascii ''a'') ! 0)"
    by (simp add: overlapping_calls_wire tick_note_def statusMessage_def trim_Nil slice_last_def
        Let_def)
  show ?thesis using a b c d e f by blast
qed

text \<open>
  C6 (amended): for an invocation with a truthy token that runs with no other invocation
  in flight, and in which the send of every tick settles before the next interval
  elapses, the \<open>(i+1)\<close>-th intermediate tick has progress \<open>i + 1\<close> and the phase message at
  index \<open>i mod 5\<close> of the five-element list; the last 100 code units of the latest status
  it pushed, trimmed of white space, are appended after a line break and \<open>Status: ...\<close>
  when they are not empty; when no status was pushed, or the trimmed excerpt is empty, the
  tick carries the phase message alone.
\<close>

theorem C6_tick_messages:
  assumes "toolExists R (params_name request)"
    and "executeTool R (params_name request) (call_args request) = (evs, outcome)"
    and "params_meta_progressToken request = Some t" and "truthy (Some t)"
    and "prompt False evs"
    and "i < intervals evs"
  shows "emitted (snd (snd (snd (CallToolRequest_handler net R (g, out) request))))
           ! (length out + 1 + i)
         = \<lparr>note_method = PROTOCOL_NOTIFICATIONS_PROGRESS,
            note_params = ProgressParams t (i + 1) None
              (Some (statusMessage (progressMessages (params_name request) ! (i mod 5))
                       (statuses_at_ticks [] evs ! i)))\<rparr>
         \<and> statusMessage phase latest =
             (if trim (slice_last 100 latest) = [] then phase
              else phase @ [0xA] @ emoji_memo @ ascii '' Status: ...''
                   @ trim (slice_last 100 latest))
         \<and> statusMessage phase [] = phase"
proof -
  let ?n = "params_name request"
  have len: "length (emitted out) = length out"
    by (simp add: emitted_def)
  have "emitted (snd (snd (snd (CallToolRequest_handler net R (g, out) request))))
           ! (length out + 1 + i)
        = ticks_of ?n t 0 0 0 [] evs ! i"
    using handler_emits [OF assms(1-4), of net g out] assms(6) len
    by (simp add: nth_append length_ticks_of)
  also have "\<dots> = tick_note ?n t i i (statuses_at_ticks [] evs ! i)"
    using ticks_of_nth [OF assms(5) _ assms(6), of 0 ?n t 0 0 "[]"] by simp
  finally show ?thesis
    by (simp add: tick_note_def statusMessage_def Let_def trim_Nil slice_last_def)
qed

theorem C6_tick_messages_witness:
  "toolExists slow_tool (params_name (echo_request (Some (TStr (ascii ''tok-1'')))))
   \<and> executeTool slow_tool (params_name (echo_request (Some (TStr (ascii ''tok-1'')))))
        (call_args (echo_request (Some (TStr (ascii ''tok-1'')))))
      = ([IntervalElapsed, SendSettled, OnProgress (ascii ''ok ''), IntervalElapsed,
          SendSettled], Inr (ascii ''hi''))
   \<and> truthy (Some (TStr (ascii ''tok-1'')))
   \<and> prompt False [IntervalElapsed, SendSettled, OnProgress (ascii ''ok ''), IntervalElapsed,
         SendSettled]
   \<and> 1 < intervals [IntervalElapsed, SendSettled, OnProgress (ascii ''ok ''), IntervalElapsed,
         SendSettled]
   \<and> emitted (snd (snd (snd (CallToolRequest_handler reliable slow_tool (initial_globals, [])
         (echo_request (Some (TStr (ascii ''tok-1'')))))))) ! 2
     = \<lparr>note_method = PROTOCOL_NOTIFICATIONS_PROGRESS,
        note_params = ProgressParams (TStr (ascii ''tok-1'')) 2 None
          (Some (emoji_zap @ ascii '' echo - Connecting to Gemini AI models...'' @ [0xA]
                 @ emoji_memo @ ascii '' Status: ...ok''))\<rparr>"
proof -
  let ?rq = "echo_request (Some (TStr (ascii ''tok-1'')))"
  let ?evs = "[IntervalElapsed, SendSettled, OnProgress (ascii ''ok ''), IntervalElapsed,
               SendSettled]"
  have reg: "toolExists slow_tool (params_name ?rq)"
    by (simp add: slow_tool_def single_tool_def echo_request_def)
  have ex: "executeTool slow_tool (params_name ?rq) (call_args ?rq) = (?evs, Inr (ascii ''hi''))"
    by (simp add: slow_tool_def single_tool_def)
  have tok: "params_meta_progressToken ?rq = Some (TStr (ascii ''tok-1''))"
    by (simp add: echo_request_def)
  have tr: "truthy (Some (TStr (ascii ''tok-1'')))"
    by (simp add: ascii_def)
  have pr: "prompt False ?evs"
    by simp
  have i: "1 < intervals ?evs"
    by (simp add: intervals_def)
  have nm: "params_name ?rq = ascii ''echo''"
    by (simp add: echo_request_def)
  have "emitted (snd (snd (snd (CallToolRequest_handler reliable slow_tool (initial_globals, [])
         ?rq)))) ! 2
     = \<lparr>note_method = PROTOCOL_NOTIFICATIONS_PROGRESS,
        note_params = ProgressParams (TStr (ascii ''tok-1'')) 2 None
          (Some (emoji_zap @ ascii '' echo - Connecting to Gemini AI models...'' @ [0xA]
                 @ emoji_memo @ ascii '' Status: ...ok''))\<rparr>"
    using C6_tick_messages [OF reg ex tok tr pr i, of reliable initial_globals "[]",
        THEN conjunct1]
    by (simp add: nm statusMessage_def trim_ok Let_def progressMessages_def)
       (simp add: ascii_def numeral_2_eq_2)
  then show ?thesis using reg ex tr pr i by simp
qed

section \<open>Invocations in flight together\<close>

lemma two_calls_world:
  "run reliable initial_world two_calls =
     \<lparr>shared = \<lparr>isProcessing = True, currentOperationName = ascii ''b'', latestOutput = []\<rparr>,
      channels = [1 \<mapsto> \<lparr>operationName = ascii ''a'', progressToken = Some (TNum 1),
                          messageIndex = 0, progress = 0, pending = 0, cleared = False\<rparr>,
                  2 \<mapsto> \<lparr>operationName = ascii ''b'', progressToken = Some (TNum 2),
                          messageIndex = 0, progress = 0, pending = 0, cleared = False\<rparr>],
      wire = [(start_note (ascii ''a'') (TNum 1), None), (start_note (ascii ''b'') (TNum 2), None)]\<rparr>"
  by (simp add: run_def two_calls_def initial_world_def initial_globals_def
      startProgressUpdates_def sendProgressNotification_def server_notification_def
      reliable_def start_note_def emoji_palette_def)

lemma run_append: "run net w (xs @ ys) = run net (run net w xs) ys"
  by (simp add: run_def)

lemma run_Cons: "run net w (e # evs) = run net (step net w e) evs"
  by (simp add: run_def)

text \<open>Only a start sets \<open>isProcessing\<close>.\<close>

lemma step_keeps_idle:
  "\<not> isProcessing (shared w) \<Longrightarrow> no_start [e] \<Longrightarrow> \<not> isProcessing (shared (step net w e))"
  by (cases e)
     (auto simp: stopProgressUpdates_def Let_def split: option.splits prod.splits)

lemma run_keeps_idle:
  "\<not> isProcessing (shared w) \<Longrightarrow> no_start evs \<Longrightarrow> \<not> isProcessing (shared (run net w evs))"
proof (induction evs arbitrary: w)
  case Nil
  then show ?case by (simp add: run_def)
next
  case (Cons e evs)
  from Cons.prems(2) have e: "no_start [e]" and rest: "no_start evs"
    by (cases e; simp)+
  show ?case
    using Cons.IH [OF step_keeps_idle [OF Cons.prems(1) e] rest] by (simp add: run_Cons)
qed

lemma stop_makes_idle:
  "channels w i = Some chi \<Longrightarrow> \<not> isProcessing (shared (step net w (Stop i success)))"
  by (simp add: stopProgressUpdates_def Let_def)

lemma fire_while_idle:
  assumes "\<not> isProcessing (shared w)" "channels w j = Some chj"
  shows "wire (step net w (Fire j)) = wire w
         \<and> map_option cleared (channels (step net w (Fire j)) j) = Some True"
  using assms by (simp add: timer_fires_def progressInterval_def)

text \<open>
  C5 (as stated, refuted): two invocations are in flight. When the timer of the second
  fires, it sends a tick; when the first invocation is stopped before that, the same
  firing sends nothing and cancels the second invocation's timer.
\<close>

theorem C5_stop_silences_other_channel_counterexample:
  "wire_tokens (run reliable initial_world (two_calls @ [Fire 2])) = [TNum 1, TNum 2, TNum 2]
   \<and> wire_tokens (run reliable initial_world (two_calls @ [Stop 1 True, Fire 2]))
       = [TNum 1, TNum 2, TNum 1]
   \<and> map_option cleared
         (channels (run reliable initial_world (two_calls @ [Stop 1 True, Fire 2])) 2)
       = Some True"
proof -
  have a: "wire_tokens (run reliable initial_world (two_calls @ [Fire 2]))
             = [TNum 1, TNum 2, TNum 2]"
    by (simp add: run_append two_calls_world)
       (simp add: run_def wire_tokens_def emitted_def timer_fires_def progressInterval_def
          sendProgressNotification_def server_notification_def reliable_def start_note_def
          statusMessage_def trim_def slice_last_def progressMessages_def emoji_palette_def
          Let_def)
  have b: "wire_tokens (run reliable initial_world (two_calls @ [Stop 1 True, Fire 2]))
       = [TNum 1, TNum 2, TNum 1]
   \<and> map_option cleared
         (channels (run reliable initial_world (two_calls @ [Stop 1 True, Fire 2])) 2)
       = Some True"
    by (simp add: run_append two_calls_world)
       (simp add: run_def wire_tokens_def emitted_def timer_fires_def progressInterval_def
          stopProgressUpdates_def sendProgressNotification_def server_notification_def
          reliable_def start_note_def emoji_check_def Let_def)
  show ?thesis using a b by blast
qed

text \<open>
  C5 (amended): invocations in flight together share the module variables
  \<open>isProcessing\<close>, \<open>currentOperationName\<close> and \<open>latestOutput\<close>. Each has its own timer, token
  and step counters, which no event of another invocation modifies directly; but the
  status pushed by any invocation is the shared \<open>latestOutput\<close>, a start sets the shared
  \<open>isProcessing\<close>, and stopping one invocation's channel clears it: from then on, as long as
  no invocation starts, a firing of any in-flight channel's timer sends nothing and leaves
  that timer cancelled.
\<close>

theorem C5_shared_state_between_invocations:
  "(wev_invocation e \<noteq> j \<longrightarrow> channels (step net w e) j = channels w j)
   \<and> latestOutput (shared (step net w (Progress i s))) = s
   \<and> isProcessing (shared (step net w (Start k n tok)))
   \<and> (channels w i = Some chi \<and> no_start evs
        \<and> channels (run net (step net w (Stop i success)) evs) j = Some chj \<longrightarrow>
        \<not> isProcessing (shared (run net (step net w (Stop i success)) evs))
        \<and> wire (step net (run net (step net w (Stop i success)) evs) (Fire j))
            = wire (run net (step net w (Stop i success)) evs)
        \<and> map_option cleared
            (channels (step net (run net (step net w (Stop i success)) evs) (Fire j)) j)
            = Some True)"
proof -
  have own: "channels (step net w e) j = channels w j" if "wev_invocation e \<noteq> j"
    using that
    by (cases e)
       (auto simp: startProgressUpdates_def stopProgressUpdates_def Let_def
          split: option.splits prod.splits)
  have start: "isProcessing (shared (step net w (Start k n tok)))"
    by (simp add: startProgressUpdates_def)
  have prog: "latestOutput (shared (step net w (Progress i s))) = s"
    by simp
  have stop: "\<not> isProcessing (shared (run net (step net w (Stop i success)) evs))
        \<and> wire (step net (run net (step net w (Stop i success)) evs) (Fire j))
            = wire (run net (step net w (Stop i success)) evs)
        \<and> map_option cleared
            (channels (step net (run net (step net w (Stop i success)) evs) (Fire j)) j)
            = Some True"
    if "channels w i = Some chi" "no_start evs"
      "channels (run net (step net w (Stop i success)) evs) j = Some chj"
  proof -
    have idle: "\<not> isProcessing (shared (run net (step net w (Stop i success)) evs))"
      using run_keeps_idle [OF stop_makes_idle [OF that(1)] that(2)] .
    show ?thesis using idle fire_while_idle [OF idle that(3)] by blast
  qed
  show ?thesis using own start prog stop by blast
qed

theorem C5_shared_state_between_invocations_witness:
  "wev_invocation (Stop 1 True) \<noteq> 2
   \<and> channels (step reliable (run reliable initial_world two_calls) (Stop 1 True)) 2
       = channels (run reliable initial_world two_calls) 2
   \<and> channels (run reliable initial_world two_calls) 1
       = Some \<lparr>operationName = ascii ''a'', progressToken = Some (TNum 1),
               messageIndex = 0, progress = 0, pending = 0, cleared = False\<rparr>
   \<and> no_start [Progress 2 (ascii ''working''), Settled 2]
   \<and> channels (run reliable (step reliable (run reliable initial_world two_calls) (Stop 1 True))
        [Progress 2 (ascii ''working''), Settled 2]) 2
       = Some \<lparr>operationName = ascii ''b'', progressToken = Some (TNum 2),
               messageIndex = 0, progress = 0, pending = 0, cleared = False\<rparr>
   \<and> wire (step reliable
        (run reliable (step reliable (run reliable initial_world two_calls) (Stop 1 True))
           [Progress 2 (ascii ''working''), Settled 2]) (Fire 2))
       = wire (run reliable (step reliable (run reliable initial_world two_calls) (Stop 1 True))
           [Progress 2 (ascii ''working''), Settled 2])
   \<and> map_option cleared
         (channels (step reliable
            (run reliable (step reliable (run reliable initial_world two_calls) (Stop 1 True))
               [Progress 2 (ascii ''working''), Settled 2]) (Fire 2)) 2)
       = Some True"
proof -
  let ?w = "run reliable initial_world two_calls"
  let ?a = "\<lparr>operationName = ascii ''a'', progressToken = Some (TNum 1),
               messageIndex = 0, progress = 0, pending = 0, cleared = False\<rparr>"
  let ?b = "\<lparr>operationName = ascii ''b'', progressToken = Some (TNum 2),
               messageIndex = 0, progress = 0, pending = 0, cleared = False\<rparr>"
  let ?evs = "[Progress 2 (ascii ''working''), Settled 2]"
  have a: "channels ?w 1 = Some ?a"
    by (simp add: two_calls_world)
  have b: "channels (run reliable (step reliable ?w (Stop 1 True)) ?evs) 2 = Some ?b"
    by (simp only: two_calls_world)
       (simp add: run_def stopProgressUpdates_def Let_def progressInterval_resumes_def
          sendProgressNotification_def server_notification_def)
  have c: "wev_invocation (Stop 1 True) \<noteq> 2"
    by simp
  have d: "no_start ?evs"
    by simp
  show ?thesis
    using a b c d
      C5_shared_state_between_invocations [where e = "Stop 1 True" and j = 2 and net = reliable
        and w = ?w and i = 1 and chi = ?a and evs = ?evs and success = True and chj = ?b]
    by blast
qed

end
